theory Spec2Isabelle
  imports Complex_Main "HOL-Library.Sublist"
begin

section \<open>FindFlow front end (website/main.js): a shallow embedding\<close>

text \<open>
  The program is the browser script \<^verbatim>\<open>src/website/main.js\<close>. Its global variables and
  the parts of the page it reads and writes become records, its functions become
  functions from state to state, and the callbacks it hands to \<^verbatim>\<open>setTimeout\<close> and
  \<^verbatim>\<open>fetch\<close> become entries of a timer list and a list of pending requests that are
  run by explicit steps (\<open>fire_timer\<close>, \<open>ask_resolved\<close>, \<open>ask_rejected\<close>).
\<close>

subsection \<open>JavaScript strings and values\<close>

text \<open>
  A JavaScript string is a sequence of UTF-16 code units. The tables of the script hold
  Turkish letters (U+0131, U+00F6) that do not fit an 8-bit \<^typ>\<open>char\<close>, so a string is a
  list of code units and \<open>str\<close> embeds an ASCII literal.
\<close>

type_synonym jsstring = "nat list"

definition str :: "string \<Rightarrow> jsstring" where
  "str cs = map of_char cs"

text \<open>
  \<^verbatim>\<open>String.prototype.toLowerCase\<close> on Basic Latin, the Latin-1 Supplement, U+0130
  (capital dotted I, which lower-cases to two code units) and U+212A (the Kelvin sign,
  which lower-cases to \<open>k\<close>). Every other code unit is left as it is. The product names
  are written in \<open>a-z\<close>, \<open>A-Z\<close>, the space, U+0131 and U+00F6; a code unit that is not
  listed here has no lower case made of such letters, in the model as in JavaScript, so
  the test \<^verbatim>\<open>p.name.toLowerCase().includes(input)\<close> is modelled exactly for every input.
\<close>

definition toLowerCase_unit :: "nat \<Rightarrow> jsstring" where
  "toLowerCase_unit c =
     (if 65 \<le> c \<and> c \<le> 90 then [c + 32]
      else if 192 \<le> c \<and> c \<le> 222 \<and> c \<noteq> 215 then [c + 32]
      else if c = 304 then [105, 775]
      else if c = 8490 then [107]
      else [c])"

definition toLowerCase :: "jsstring \<Rightarrow> jsstring" where
  "toLowerCase s = concat (map toLowerCase_unit s)"

text \<open>\<^verbatim>\<open>s.includes(t)\<close>: \<open>t\<close> occurs in \<open>s\<close> as a contiguous run of code units.\<close>

fun js_includes :: "jsstring \<Rightarrow> jsstring \<Rightarrow> bool" where
  "js_includes [] t = (t = [])"
| "js_includes (c # s) t = (prefix t (c # s) \<or> js_includes s t)"

text \<open>
  A number is an IEEE double. Every finite double is a rational and doubles compare as
  their values do, so a finite double is kept as its exact value; \<open>NaN\<close> and the
  infinities are values of their own.
\<close>

datatype jsnum = NaN | NegInfinity | Finite rat | PosInfinity

text \<open>Truthiness of a number, and \<^verbatim>\<open>x >= y\<close> for a finite \<open>x\<close>.\<close>

fun truthy_num :: "jsnum \<Rightarrow> bool" where
  "truthy_num NaN = False"
| "truthy_num (Finite q) = (q \<noteq> 0)"
| "truthy_num NegInfinity = True"
| "truthy_num PosInfinity = True"

fun ge_num :: "rat \<Rightarrow> jsnum \<Rightarrow> bool" where
  "ge_num x NaN = False"
| "ge_num x NegInfinity = True"
| "ge_num x (Finite y) = (y \<le> x)"
| "ge_num x PosInfinity = False"

subsection \<open>Catalog filter (lines 186-235)\<close>

record product =
  name :: jsstring
  color :: jsstring
  size_p :: jsstring
  price :: nat
  rating :: rat

text \<open>
  The ratings of the table are written as decimals (\<^verbatim>\<open>4.6\<close>); the value the program
  holds is the nearest double. All ten lie in \<open>[4, 8)\<close>, where doubles are the multiples
  of \<open>2\<^sup>-\<^sup>5\<^sup>0\<close>: \<open>dbl m\<close> is the double with that numerator.
\<close>

definition dbl :: "int \<Rightarrow> rat" where
  "dbl m = of_int m / 2 ^ 50"

definition products :: "product list" where
  "products =
    [\<lparr>name = str ''Mouse'', color = str ''siyah'', size_p = str ''M'', price = 399,
        rating = dbl 5179139571476070\<rparr>,
     \<lparr>name = str ''Laptop'', color = str ''gri'', size_p = str ''L'', price = 15999,
        rating = dbl 5404319552844595\<rparr>,
     \<lparr>name = str ''Telefon'', color = str ''mavi'', size_p = str ''M'', price = 10999,
        rating = dbl 5291729562160333\<rparr>,
     \<lparr>name = str ''Kulakl'' @ [305] @ str ''k'', color = str ''siyah'', size_p = str ''S'',
        price = 799, rating = dbl 4841369599423283\<rparr>,
     \<lparr>name = str ''Monit'' @ [246] @ str ''r'', color = str ''beyaz'', size_p = str ''L'',
        price = 2999, rating = dbl 5066549580791808\<rparr>,
     \<lparr>name = str ''Klavye'', color = str ''siyah'', size_p = str ''M'', price = 599,
        rating = dbl 4728779608739021\<rparr>,
     \<lparr>name = str ''Tablet'', color = str ''gri'', size_p = str ''M'', price = 4999,
        rating = dbl 4953959590107546\<rparr>,
     \<lparr>name = str ''Kamera'', color = str ''siyah'', size_p = str ''S'', price = 3499,
        rating = dbl 4616189618054758\<rparr>,
     \<lparr>name = str ''Hoparl'' @ [246] @ str ''r'',
        color = str ''k'' @ [305] @ str ''rm'' @ [305] @ str ''z'' @ [305], size_p = str ''S'',
        price = 699, rating = dbl 4503599627370496\<rparr>,
     \<lparr>name = str ''Ak'' @ [305] @ str ''ll'' @ [305] @ str '' Saat'', color = str ''siyah'',
        size_p = str ''S'', price = 1999, rating = dbl 5179139571476070\<rparr>]"

text \<open>The decimal each rating was written as, in table order.\<close>

definition rating_literals :: "rat list" where
  "rating_literals = [46/10, 48/10, 47/10, 43/10, 45/10, 42/10, 44/10, 41/10, 40/10, 46/10]"

text \<open>
  The part of the page the smart search works on. The four controls and the result list
  are created by \<^verbatim>\<open>window.onload\<close>, after \<^verbatim>\<open>DOMContentLoaded\<close>, so each may be missing
  (\<open>None\<close>) when the filter runs. \<open>catalog\<close> is the array bound to \<^verbatim>\<open>products\<close>.
  \<open>rating_filter\<close> holds \<^verbatim>\<open>parseFloat(ratingEl.value)\<close>: \<open>NaN\<close> for the unset control,
  whose value is the empty string.
\<close>

record smart_search =
  catalog :: "product list"
  product_search_input :: "jsstring option"
  color_filter :: "jsstring option"
  size_filter :: "jsstring option"
  rating_filter :: "jsnum option"
  product_list :: "product list option"

definition displayProducts :: "product list \<Rightarrow> smart_search \<Rightarrow> smart_search" where
  "displayProducts filtered d =
     (case product_list d of
        None \<Rightarrow> d
      | Some _ \<Rightarrow> d\<lparr>product_list := Some filtered\<rparr>)"

definition filterProducts :: "smart_search \<Rightarrow> smart_search" where
  "filterProducts d =
     (case (product_search_input d, color_filter d, size_filter d, rating_filter d) of
        (Some inputValue, Some color_v, Some size_v, Some parsed) \<Rightarrow>
          (let input = toLowerCase inputValue;
               rating_v = (if truthy_num parsed then parsed else Finite 0);
               filtered = filter (\<lambda>p.
                 js_includes (toLowerCase (name p)) input \<and>
                 (color_v = [] \<or> color p = color_v) \<and>
                 (size_v = [] \<or> size_p p = size_v) \<and>
                 ge_num (rating p) rating_v) (catalog d)
           in displayProducts filtered d)
      | _ \<Rightarrow> d)"

text \<open>
  The contract in the words of the specification: a predicate set, each predicate given
  or not, and the items matching all the given ones.
\<close>

record predicate_set =
  text_substring :: "jsstring option"
  exact_color :: "jsstring option"
  exact_size :: "jsstring option"
  minimum_rating :: "jsnum option"

definition matches_all :: "predicate_set \<Rightarrow> product \<Rightarrow> bool" where
  "matches_all ps p =
     ((case text_substring ps of None \<Rightarrow> True
        | Some t \<Rightarrow> js_includes (toLowerCase (name p)) (toLowerCase t)) \<and>
      (case exact_color ps of None \<Rightarrow> True | Some c \<Rightarrow> color p = c) \<and>
      (case exact_size ps of None \<Rightarrow> True | Some z \<Rightarrow> size_p p = z) \<and>
      (case minimum_rating ps of None \<Rightarrow> True | Some r \<Rightarrow> ge_num (rating p) r))"

text \<open>
  What the controls mean as a predicate set: an empty text, colour or size is unset, and
  so is a rating that did not parse (\<open>NaN\<close>).
\<close>

definition predicates_of :: "jsstring \<Rightarrow> jsstring \<Rightarrow> jsstring \<Rightarrow> jsnum \<Rightarrow> predicate_set" where
  "predicates_of inputValue color_v size_v parsed =
     \<lparr>text_substring = (if inputValue = [] then None else Some inputValue),
      exact_color = (if color_v = [] then None else Some color_v),
      exact_size = (if size_v = [] then None else Some size_v),
      minimum_rating = (if parsed = NaN then None else Some parsed)\<rparr>"

subsection \<open>JSON values\<close>

text \<open>
  What \<^verbatim>\<open>res.json()\<close> yields, and \<^verbatim>\<open>undefined\<close> for a property that is not there. An
  object is the association list of its own properties.
\<close>

datatype jsval =
    JUndefined
  | JNull
  | JBool bool
  | JNumber jsnum
  | JString jsstring
  | JArray "jsval list"
  | JObject "(jsstring \<times> jsval) list"

fun truthy :: "jsval \<Rightarrow> bool" where
  "truthy JUndefined = False"
| "truthy JNull = False"
| "truthy (JBool b) = b"
| "truthy (JNumber n) = truthy_num n"
| "truthy (JString s) = (s \<noteq> [])"
| "truthy (JArray xs) = True"
| "truthy (JObject kvs) = True"

text \<open>
  \<^verbatim>\<open>data.k\<close> for a payload that is neither \<^verbatim>\<open>null\<close> nor \<^verbatim>\<open>undefined\<close> (reading a
  property of those throws, which \<open>ask_then\<close> handles before it reads any). The names the
  script reads from a payload are \<^verbatim>\<open>question\<close>, \<^verbatim>\<open>options\<close>, \<^verbatim>\<open>type\<close>,
  \<^verbatim>\<open>recommendations\<close>, \<^verbatim>\<open>categories\<close>, \<^verbatim>\<open>error\<close>, \<^verbatim>\<open>fallback_recommendations\<close>,
  \<^verbatim>\<open>tooltip\<close>, \<^verbatim>\<open>emoji\<close> and \<^verbatim>\<open>message\<close>; none of them is a property of an array, a
  string, a number or a boolean, so only an object can hold one.
\<close>

fun get_prop :: "jsval \<Rightarrow> jsstring \<Rightarrow> jsval" where
  "get_prop (JObject kvs) k = (case map_of kvs k of None \<Rightarrow> JUndefined | Some v \<Rightarrow> v)"
| "get_prop _ k = JUndefined"

text \<open>\<^verbatim>\<open>a || b\<close>, \<^verbatim>\<open>Array.isArray\<close> and the elements of an array.\<close>

definition js_or :: "jsval \<Rightarrow> jsval \<Rightarrow> jsval" where
  "js_or a b = (if truthy a then a else b)"

fun isArray :: "jsval \<Rightarrow> bool" where
  "isArray (JArray xs) = True"
| "isArray _ = False"

fun elements :: "jsval \<Rightarrow> jsval list" where
  "elements (JArray xs) = xs"
| "elements _ = []"

text \<open>
  Whether converting a value to a string throws a TypeError. The script converts a value
  when it uses it as a property key (\<^verbatim>\<open>iconMap[emoji]\<close>, \<^verbatim>\<open>categoryIcons[cat]\<close>), assigns it
  to \<^verbatim>\<open>innerHTML\<close> or \<^verbatim>\<open>textContent\<close>, or puts it in a template literal. A primitive
  value always converts. An object of a JSON payload inherits \<^verbatim>\<open>toString\<close> from
  \<^verbatim>\<open>Object.prototype\<close>, which yields \<^verbatim>\<open>[object Object]\<close>, unless it has a property
  \<^verbatim>\<open>toString\<close> of its own: that one is a JSON value, so it cannot be called, and
  \<^verbatim>\<open>valueOf\<close> (its own, which cannot be called either, or the inherited one, which returns
  the object) yields no primitive value, hence the TypeError. An array is joined, which
  converts each element other than \<^verbatim>\<open>null\<close>.
\<close>

fun ToString_throws :: "jsval \<Rightarrow> bool" where
  "ToString_throws (JArray xs) = list_ex ToString_throws xs"
| "ToString_throws (JObject kvs) = (map_of kvs (str ''toString'') \<noteq> None)"
| "ToString_throws _ = False"

text \<open>
  \<^verbatim>\<open>String.prototype.trim\<close>: it strips the WhiteSpace and LineTerminator code units of
  ECMAScript from both ends.
\<close>

definition white_space :: "nat \<Rightarrow> bool" where
  "white_space c =
     (c \<in> set [9, 10, 11, 12, 13, 32, 160, 5760, 8232, 8233, 8239, 8287, 12288, 65279]
      \<or> (8192 \<le> c \<and> c \<le> 8202))"

definition trim :: "jsstring \<Rightarrow> jsstring" where
  "trim s = rev (dropWhile white_space (rev (dropWhile white_space s)))"

subsection \<open>Session state, page and event loop (lines 6-15, 120-122, 890)\<close>

text \<open>
  A function that can throw returns how it completed together with the state it left:
  what it wrote before the exception stays written.
\<close>

datatype completion = Normal | Throw

text \<open>What the \<^verbatim>\<open>.recommendations\<close> panel shows.\<close>

datatype rec_panel =
    Cleared
  | NoProductsFound
  | RecommendationList "jsstring list"

text \<open>
  The callbacks the script passes to \<^verbatim>\<open>setTimeout\<close>: \<^verbatim>\<open>askAgent\<close> after an answer
  (line 927), the watchdog of a request (line 962) and the delayed second banner of the
  fallback branch (line 1057).
\<close>

datatype callback =
    AskAgentCallback
  | TimeoutCallback
  | InfoMessageCallback jsval

record timer =
  timer_id :: nat
  delay_ms :: nat
  timer_callback :: callback

text \<open>
  A \<^verbatim>\<open>POST /ask\<close> that has been sent and not yet answered: its JSON body, and the
  \<^verbatim>\<open>timeoutId\<close> its two handlers have captured.
\<close>

record ask_request =
  req_step :: nat
  req_category :: "jsstring option"
  req_answers :: "jsstring list"
  req_language :: jsstring
  req_timeout :: nat

text \<open>
  The global variables of the script, the part of the page it reads and writes, and the
  event loop. \<^verbatim>\<open>main.html\<close> is not among the sources: every element the script looks up
  by id or class in the functions below is taken to exist, so that the guards
  \<^verbatim>\<open>if (loadingElement)\<close>, \<^verbatim>\<open>if (searchInput)\<close> and \<^verbatim>\<open>if (!questionDiv || !optionsDiv)\<close>
  pass and no lookup throws (the \<^verbatim>\<open>catch\<close> of \<^verbatim>\<open>handleOption\<close> is then never entered).
  An element whose \<^verbatim>\<open>style.display\<close> is set to the empty string is taken to be shown
  (the style sheet is not among the sources either).
  Styling (colours, icons, the progress bar and its two timers, the progress counter text
  and the dismissal of a banner) is left out; \<open>info_messages\<close> lists the banners shown.
  \<open>step\<close> is a JavaScript number that only ever holds \<open>0\<close>, \<open>1\<close> or a successor; it is
  one more than an array length at most, far below \<open>2\<^sup>5\<^sup>3\<close>, where \<^verbatim>\<open>step++\<close> is exact.
  \<open>currentSpecs\<close> is \<^verbatim>\<open>window.currentSpecs\<close>: for each category the number of its
  question specifications, \<open>None\<close> before \<^verbatim>\<open>/categories\<close> has been loaded.
  \<open>totalQuestions\<close> is a number or \<^verbatim>\<open>undefined\<close> (\<open>None\<close>).
  An option button is the option it passes to \<^verbatim>\<open>handleOption\<close> and its \<^verbatim>\<open>disabled\<close> flag.
  The category given to \<^verbatim>\<open>startInteraction\<close> and the option given to \<^verbatim>\<open>handleOption\<close> are
  strings, as the data model of the specification has them; the payload of an \<^verbatim>\<open>/ask\<close>
  response is any JSON value.
\<close>

record flow =
  currentLanguage :: jsstring
  currentCategory :: jsstring
  currentQuestionIndex :: nat
  totalQuestions :: "nat option"
  step :: nat
  category :: "jsstring option"
  answers :: "jsstring list"
  isRequestInProgress :: bool
  currentSpecs :: "(jsstring \<times> nat) list option"
  currentQuestionTooltip :: jsval
  chatbox_input :: jsstring
  landing_display :: bool
  interaction_display :: bool
  category_cards :: "jsval list"
  question_html :: jsval
  option_btns :: "(jsval \<times> bool) list"
  recommendations_html :: rec_panel
  error_text :: jsstring
  loading_display :: bool
  ai_creation_screen :: bool
  error_screen :: bool
  tooltip_text :: "jsstring option"
  info_messages :: "jsval list"
  alerts :: "jsstring list"
  timers :: "timer list"
  next_timer :: nat
  pending_ask :: "(nat \<times> ask_request) list"
  pending_detect :: "(nat \<times> jsstring) list"
  next_request :: nat

text \<open>
  The markup of one recommendation card (the template of lines 792-830), given the
  language and the item: \<open>None\<close> when evaluating the template throws a TypeError (the
  item is \<^verbatim>\<open>null\<close>, its \<^verbatim>\<open>source_site\<close> is not a string, its \<^verbatim>\<open>features\<close> is
  a string, ...). The template reads nothing else and writes nothing; the functions that
  render recommendations take it as a parameter.
\<close>

type_synonym markup = "jsstring \<Rightarrow> jsval \<Rightarrow> jsstring option"

subsection \<open>Timers and overlays (lines 1378-1462)\<close>

definition setTimeout :: "callback \<Rightarrow> nat \<Rightarrow> flow \<Rightarrow> nat \<times> flow" where
  "setTimeout cb ms s =
     (next_timer s,
      s\<lparr>timers := timers s @ [\<lparr>timer_id = next_timer s, delay_ms = ms, timer_callback = cb\<rparr>],
        next_timer := next_timer s + 1\<rparr>)"

definition clearTimeout :: "nat \<Rightarrow> flow \<Rightarrow> flow" where
  "clearTimeout tid s = s\<lparr>timers := filter (\<lambda>t. timer_id t \<noteq> tid) (timers s)\<rparr>"

definition showAICreationScreen :: "flow \<Rightarrow> flow" where
  "showAICreationScreen s = s\<lparr>ai_creation_screen := True\<rparr>"

definition hideAICreationScreen :: "flow \<Rightarrow> flow" where
  "hideAICreationScreen s = s\<lparr>ai_creation_screen := False\<rparr>"

text \<open>
  \<^verbatim>\<open>showInfoMessage\<close> puts the message in a template literal before it adds the banner
  to the page.
\<close>

definition showInfoMessage :: "jsval \<Rightarrow> flow \<Rightarrow> completion \<times> flow" where
  "showInfoMessage message s =
     (if ToString_throws message then (Throw, s)
      else (Normal, s\<lparr>info_messages := info_messages s @ [message]\<rparr>))"

definition showErrorScreen :: "flow \<Rightarrow> flow" where
  "showErrorScreen s = s\<lparr>error_screen := True\<rparr>"

definition hideErrorScreen :: "flow \<Rightarrow> flow" where
  "hideErrorScreen s = s\<lparr>error_screen := False\<rparr>"

definition hideLoadingScreen :: "flow \<Rightarrow> flow" where
  "hideLoadingScreen s = s\<lparr>loading_display := False\<rparr>"

subsection \<open>Rendering (lines 618-653, 686-848, 1464-1495)\<close>

text \<open>
  \<^verbatim>\<open>xs.forEach(f)\<close> for an array: the elements in order, until one call throws.
\<close>

fun forEach :: "('a \<Rightarrow> flow \<Rightarrow> completion \<times> flow) \<Rightarrow> 'a list \<Rightarrow> flow \<Rightarrow> completion \<times> flow" where
  "forEach f [] s = (Normal, s)"
| "forEach f (x # xs) s =
     (case f x s of
        (Throw, s1) \<Rightarrow> (Throw, s1)
      | (Normal, s1) \<Rightarrow> forEach f xs s1)"

text \<open>
  The callback of line 622: the card of a category is added to the grid at the end, after
  the category has been used as a key of \<^verbatim>\<open>categoryIcons\<close> (line 632) and of
  \<^verbatim>\<open>categoryTranslations\<close> (line 599).
\<close>

definition append_card :: "jsval \<Rightarrow> flow \<Rightarrow> completion \<times> flow" where
  "append_card cat s =
     (if ToString_throws cat then (Throw, s)
      else (Normal, s\<lparr>category_cards := category_cards s @ [cat]\<rparr>))"

text \<open>
  \<^verbatim>\<open>renderLanding\<close>. A value that is not an array has no method \<^verbatim>\<open>forEach\<close> that can be
  called. Line 649 registers the key handler of the query box once more, so that the Enter
  key calls \<^verbatim>\<open>handleChatboxEntry\<close> once per registration; each call is one submission.
\<close>

definition renderLanding :: "jsval \<Rightarrow> flow \<Rightarrow> completion \<times> flow" where
  "renderLanding categories s =
     (let s1 = s\<lparr>category_cards := []\<rparr>
      in if isArray categories
         then forEach append_card (elements categories) s1
         else (Throw, s1))"

text \<open>
  \<^verbatim>\<open>updateQuestionIcon\<close> (line 686): a truthy \<^verbatim>\<open>emoji\<close> is used as a key of \<^verbatim>\<open>iconMap\<close>;
  the icon itself is styling.
\<close>

definition updateQuestionIcon :: "jsval \<Rightarrow> flow \<Rightarrow> completion \<times> flow" where
  "updateQuestionIcon emoji s =
     (if truthy emoji \<and> ToString_throws emoji then (Throw, s) else (Normal, s))"

text \<open>
  \<^verbatim>\<open>updateQuestionTooltip\<close> (line 1465): a truthy tooltip that is not a string has no
  method \<^verbatim>\<open>trim\<close> that can be called.
\<close>

definition updateQuestionTooltip :: "flow \<Rightarrow> completion \<times> flow" where
  "updateQuestionTooltip s =
     (if truthy (currentQuestionTooltip s)
      then (case currentQuestionTooltip s of
              JString t \<Rightarrow>
                (if trim t \<noteq> [] then (Normal, s\<lparr>tooltip_text := Some t\<rparr>)
                 else (Normal, s\<lparr>tooltip_text := None\<rparr>))
            | _ \<Rightarrow> (Throw, s))
      else (Normal, s\<lparr>tooltip_text := None\<rparr>))"

text \<open>
  The callback of line 751: the button of an option is added once the option has been
  assigned to its \<^verbatim>\<open>textContent\<close>.
\<close>

definition append_button :: "jsval \<Rightarrow> flow \<Rightarrow> completion \<times> flow" where
  "append_button opt s =
     (if ToString_throws opt then (Throw, s)
      else (Normal, s\<lparr>option_btns := option_btns s @ [(opt, False)]\<rparr>))"

text \<open>
  \<^verbatim>\<open>renderQuestion\<close>, statement by statement: the progress counter, the icon, the
  tooltip, the question (line 747), the emptied option list, one button per option, the
  loading indicator hidden and the panel shown.
\<close>

definition renderQuestion :: "jsval \<Rightarrow> jsval \<Rightarrow> jsval \<Rightarrow> flow \<Rightarrow> completion \<times> flow" where
  "renderQuestion question options emoji s =
     (case updateQuestionIcon emoji (s\<lparr>currentQuestionIndex := step s\<rparr>) of
        (Throw, s1) \<Rightarrow> (Throw, s1)
      | (Normal, s1) \<Rightarrow>
          (case updateQuestionTooltip s1 of
             (Throw, s2) \<Rightarrow> (Throw, s2)
           | (Normal, s2) \<Rightarrow>
               (if ToString_throws question then (Throw, s2)
                else (let s3 = s2\<lparr>question_html := question, option_btns := []\<rparr>
                      in if isArray options
                         then (case forEach append_button (elements options) s3 of
                                 (Throw, s4) \<Rightarrow> (Throw, s4)
                               | (Normal, s4) \<Rightarrow>
                                   (Normal, s4\<lparr>loading_display := False,
                                               interaction_display := True\<rparr>))
                         else (Throw, s3)))))"

definition renderRecommendations :: "markup \<Rightarrow> jsval \<Rightarrow> flow \<Rightarrow> completion \<times> flow" where
  "renderRecommendations mk recs s =
     (let s1 = hideAICreationScreen s\<lparr>loading_display := False\<rparr>
      in if \<not> truthy recs \<or> \<not> isArray recs \<or> length (elements recs) = 0
         then (Normal, s1\<lparr>recommendations_html := NoProductsFound\<rparr>)
         else (case those (map (mk (currentLanguage s1)) (elements recs)) of
                 None \<Rightarrow> (Throw, s1)
               | Some cards \<Rightarrow>
                   (Normal, s1\<lparr>recommendations_html := RecommendationList cards,
                               error_text := []\<rparr>)))"

subsection \<open>Reset (lines 862-888, 1353-1376)\<close>

definition resetToLanding :: "flow \<Rightarrow> flow" where
  "resetToLanding s =
     (let s1 = hideErrorScreen (hideAICreationScreen
                 (s\<lparr>interaction_display := False, landing_display := True\<rparr>))
      in s1\<lparr>recommendations_html := Cleared,
            question_html := JString [],
            option_btns := [],
            error_text := [],
            step := 0,
            category := None,
            answers := [],
            currentQuestionIndex := 0,
            chatbox_input := []\<rparr>)"

definition goToHomePage :: "flow \<Rightarrow> flow" where
  "goToHomePage s =
     (let s1 = hideLoadingScreen (hideAICreationScreen (hideErrorScreen s))
      in s1\<lparr>interaction_display := False,
            landing_display := True,
            step := 0,
            category := None,
            answers := [],
            chatbox_input := []\<rparr>)"

subsection \<open>Requesting the next step (lines 938-1099)\<close>

text \<open>
  \<^verbatim>\<open>window.currentSpecs\<close> is an object literal (line 1209), so besides the categories it
  has been given it has the properties of \<^verbatim>\<open>Object.prototype\<close>. Each is listed with the
  \<^verbatim>\<open>length\<close> of its value: the number of parameters of a method, and none for
  \<^verbatim>\<open>__proto__\<close>, which yields the prototype object itself.
\<close>

definition Object_prototype :: "(jsstring \<times> nat option) list" where
  "Object_prototype =
     [(str ''constructor'', Some 1),
      (str ''__defineGetter__'', Some 2),
      (str ''__defineSetter__'', Some 2),
      (str ''hasOwnProperty'', Some 1),
      (str ''__lookupGetter__'', Some 1),
      (str ''__lookupSetter__'', Some 1),
      (str ''isPrototypeOf'', Some 1),
      (str ''propertyIsEnumerable'', Some 1),
      (str ''toString'', Some 0),
      (str ''valueOf'', Some 0),
      (str ''__proto__'', None),
      (str ''toLocaleString'', Some 0)]"

text \<open>
  \<^verbatim>\<open>window.currentSpecs && window.currentSpecs[key]\<close>: \<open>None\<close> when it is falsy, else the
  \<^verbatim>\<open>length\<close> of the value found (\<open>None\<close> when that is \<^verbatim>\<open>undefined\<close>). The specification
  list of a category is an array, which is truthy also when it is empty. A category that is
  \<^verbatim>\<open>null\<close> is the key \<^verbatim>\<open>null\<close>.
\<close>

definition specs_of :: "flow \<Rightarrow> jsstring \<Rightarrow> nat option option" where
  "specs_of s key =
     (case currentSpecs s of
        None \<Rightarrow> None
      | Some specs \<Rightarrow>
          (case map_of specs key of
             Some n \<Rightarrow> Some (Some n)
           | None \<Rightarrow> map_of Object_prototype key))"

definition property_key :: "jsstring option \<Rightarrow> jsstring" where
  "property_key c = (case c of None \<Rightarrow> str ''null'' | Some k \<Rightarrow> k)"

text \<open>
  \<^verbatim>\<open>specs.length\<close> of line 958, where \<^verbatim>\<open>specs\<close> is the empty array when nothing is found.
  \<^verbatim>\<open>step > undefined\<close> is false.
\<close>

definition specs_length :: "flow \<Rightarrow> nat option" where
  "specs_length s =
     (case specs_of s (property_key (category s)) of
        None \<Rightarrow> Some 0
      | Some len \<Rightarrow> len)"

definition exceeds :: "nat \<Rightarrow> nat option \<Rightarrow> bool" where
  "exceeds n len = (case len of None \<Rightarrow> False | Some m \<Rightarrow> m < n)"

definition fetch_ask :: "nat \<Rightarrow> flow \<Rightarrow> flow" where
  "fetch_ask timeoutId s =
     s\<lparr>pending_ask := pending_ask s @
          [(next_request s,
            \<lparr>req_step = step s, req_category = category s, req_answers = answers s,
             req_language = currentLanguage s, req_timeout = timeoutId\<rparr>)],
       next_request := next_request s + 1\<rparr>"

definition askAgent :: "flow \<Rightarrow> flow" where
  "askAgent s =
     (let s1 = s\<lparr>error_text := [], loading_display := True\<rparr>;
          s2 = (if exceeds (step s1) (specs_length s1) then showAICreationScreen s1 else s1);
          (timeoutId, s3) = setTimeout TimeoutCallback 45000 s2
      in fetch_ask timeoutId s3)"

text \<open>The watchdog of line 962.\<close>

definition ask_timeout :: "flow \<Rightarrow> flow" where
  "ask_timeout s =
     (if isRequestInProgress s
      then showErrorScreen (hideAICreationScreen (s\<lparr>isRequestInProgress := False\<rparr>)
                              \<lparr>loading_display := False\<rparr>)
      else s)"

text \<open>The \<^verbatim>\<open>.catch\<close> handler of line 1090.\<close>

definition ask_catch :: "nat \<Rightarrow> flow \<Rightarrow> flow" where
  "ask_catch timeoutId s =
     showErrorScreen (hideAICreationScreen
       ((clearTimeout timeoutId s)\<lparr>isRequestInProgress := False\<rparr>)\<lparr>loading_display := False\<rparr>)"

definition modernMessage :: "jsstring \<Rightarrow> jsstring" where
  "modernMessage lang =
     (if lang = str ''tr''
      then [9989] @ str '' Online arama sistemi aktif - G'' @ [252] @
           str ''ncel piyasa verilerimizle '' @ [252] @ str ''r'' @ [252] @ str ''n '' @ [246] @
           str ''nerilerinizi sunuyoruz.''
      else [9989] @ str '' Online search system active - Showing product recommendations with current market data.'')"

definition fallbackMessage :: "jsstring \<Rightarrow> jsstring" where
  "fallbackMessage lang =
     (if lang = str ''tr''
      then [9888, 65039] @ str '' Online arama servisi '' @ [351] @ str ''u anda kullan'' @ [305] @
           str ''lam'' @ [305] @ str ''yor. Size '' @ [246] @ str ''nceden haz'' @ [305] @
           str ''rlanm'' @ [305, 351] @ str '' kaliteli '' @ [252] @ str ''r'' @ [252] @ str ''n '' @
           [246] @ str ''nerilerimizi sunuyoruz.''
      else [9888, 65039] @ str '' Online search service is currently unavailable. We are showing you our pre-prepared quality product recommendations.'')"

definition errorMsg :: "jsstring \<Rightarrow> jsstring" where
  "errorMsg lang =
     (if lang = str ''tr''
      then str ''Arama sisteminde bir sorun olu'' @ [351] @ str ''tu, yedek '' @ [246] @
           str ''neriler g'' @ [246] @ str ''steriliyor.''
      else str ''Search system error occurred, showing fallback recommendations.'')"

text \<open>The eight branches of the \<^verbatim>\<open>.then\<close> handler (lines 1006-1088), in source order.\<close>

definition question_branch :: "jsval \<Rightarrow> flow \<Rightarrow> completion \<times> flow" where
  "question_branch data s =
     (let s1 = (hideAICreationScreen s)
                 \<lparr>currentQuestionTooltip := js_or (get_prop data (str ''tooltip'')) JNull\<rparr>
      in renderQuestion (get_prop data (str ''question'')) (get_prop data (str ''options''))
           (js_or (get_prop data (str ''emoji'')) (JString [55357, 56589])) s1)"

definition modern_branch :: "markup \<Rightarrow> jsval \<Rightarrow> flow \<Rightarrow> completion \<times> flow" where
  "modern_branch mk data s =
     (case renderRecommendations mk (get_prop data (str ''recommendations'')) (hideAICreationScreen s) of
        (Throw, s1) \<Rightarrow> (Throw, s1)
      | (Normal, s1) \<Rightarrow> showInfoMessage (JString (modernMessage (currentLanguage s1))) s1)"

definition fallback_branch :: "markup \<Rightarrow> jsval \<Rightarrow> flow \<Rightarrow> completion \<times> flow" where
  "fallback_branch mk data s =
     (case renderRecommendations mk (get_prop data (str ''recommendations'')) (hideAICreationScreen s) of
        (Throw, s1) \<Rightarrow> (Throw, s1)
      | (Normal, s1) \<Rightarrow>
          (let message = fallbackMessage (currentLanguage s1)
           in case showInfoMessage (JString message) s1 of
                (Throw, s2) \<Rightarrow> (Throw, s2)
              | (Normal, s2) \<Rightarrow>
                  (if truthy (get_prop data (str ''message'')) \<and>
                      get_prop data (str ''message'') \<noteq> JString message
                   then (Normal, snd (setTimeout (InfoMessageCallback (get_prop data (str ''message'')))
                                        2000 s2))
                   else (Normal, s2))))"

definition legacy_branch :: "markup \<Rightarrow> jsval \<Rightarrow> flow \<Rightarrow> completion \<times> flow" where
  "legacy_branch mk data s = renderRecommendations mk (get_prop data (str ''recommendations'')) s"

definition categories_branch :: "jsval \<Rightarrow> flow \<Rightarrow> completion \<times> flow" where
  "categories_branch data s = renderLanding (get_prop data (str ''categories'')) s"

definition error_branch :: "flow \<Rightarrow> completion \<times> flow" where
  "error_branch s = (Normal, showErrorScreen ((hideAICreationScreen s)\<lparr>loading_display := False\<rparr>))"

definition error_fallback_branch :: "markup \<Rightarrow> jsval \<Rightarrow> flow \<Rightarrow> completion \<times> flow" where
  "error_fallback_branch mk data s =
     (case renderRecommendations mk (get_prop data (str ''fallback_recommendations''))
             (hideAICreationScreen s) of
        (Throw, s1) \<Rightarrow> (Throw, s1)
      | (Normal, s1) \<Rightarrow> showInfoMessage (JString (errorMsg (currentLanguage s1))) s1)"

definition unexpected_branch :: "flow \<Rightarrow> completion \<times> flow" where
  "unexpected_branch s =
     (Normal, showErrorScreen ((hideAICreationScreen s)\<lparr>loading_display := False\<rparr>))"

text \<open>
  The if-chain of lines 1006-1088. It is entered for a payload that is neither
  \<^verbatim>\<open>null\<close> nor \<^verbatim>\<open>undefined\<close>.
\<close>

definition dispatch :: "markup \<Rightarrow> jsval \<Rightarrow> flow \<Rightarrow> completion \<times> flow" where
  "dispatch mk data s =
     (if truthy (get_prop data (str ''question'')) \<and> truthy (get_prop data (str ''options''))
      then question_branch data s
      else if get_prop data (str ''type'') = JString (str ''modern_recommendation'') \<and>
              truthy (get_prop data (str ''recommendations''))
      then modern_branch mk data s
      else if get_prop data (str ''type'') = JString (str ''fallback_recommendation'') \<and>
              truthy (get_prop data (str ''recommendations''))
      then fallback_branch mk data s
      else if truthy (get_prop data (str ''recommendations''))
      then legacy_branch mk data s
      else if truthy (get_prop data (str ''categories''))
      then categories_branch data s
      else if truthy (get_prop data (str ''error''))
      then error_branch s
      else if get_prop data (str ''type'') = JString (str ''error'') \<and>
              truthy (get_prop data (str ''fallback_recommendations''))
      then error_fallback_branch mk data s
      else unexpected_branch s)"

text \<open>
  The \<^verbatim>\<open>.then\<close> handler of line 989. A \<^verbatim>\<open>null\<close> payload throws at the first
  \<^verbatim>\<open>data.type\<close> (line 993), and whatever the handler throws is caught by the
  \<^verbatim>\<open>.catch\<close> handler that follows it.
\<close>

definition ask_then :: "markup \<Rightarrow> nat \<Rightarrow> jsval \<Rightarrow> flow \<Rightarrow> flow" where
  "ask_then mk timeoutId data s =
     (let s1 = (clearTimeout timeoutId s)\<lparr>isRequestInProgress := False\<rparr>
      in if data = JNull \<or> data = JUndefined then ask_catch timeoutId s1
         else (case dispatch mk data s1 of
                 (Normal, s2) \<Rightarrow> s2
               | (Throw, s2) \<Rightarrow> ask_catch timeoutId s2))"

subsection \<open>Starting a flow (lines 78-118, 655-673)\<close>

definition startInteraction :: "jsstring \<Rightarrow> flow \<Rightarrow> flow" where
  "startInteraction selectedCategory s =
     (let s1 = s\<lparr>category := Some selectedCategory,
                  currentCategory := selectedCategory,
                  step := 1,
                  answers := [],
                  currentQuestionIndex := 1\<rparr>;
          s2 = s1\<lparr>totalQuestions :=
                    (case specs_of s1 selectedCategory of
                       None \<Rightarrow> Some 5
                     | Some len \<Rightarrow> len)\<rparr>
      in askAgent (s2\<lparr>landing_display := False, interaction_display := True\<rparr>))"

definition alertMsg :: "jsstring \<Rightarrow> jsstring" where
  "alertMsg lang =
     (if lang = str ''tr''
      then str ''L'' @ [252] @ str ''tfen bir '' @ [252] @ str ''r'' @ [252] @ str ''n yaz'' @ [305] @
           str ''n''
      else str ''Please enter a product'')"

definition handleChatboxEntry :: "flow \<Rightarrow> flow" where
  "handleChatboxEntry s =
     (let input = trim (chatbox_input s)
      in if input = [] then s\<lparr>alerts := alerts s @ [alertMsg (currentLanguage s)]\<rparr>
         else (let s1 = showAICreationScreen s
               in s1\<lparr>pending_detect := pending_detect s1 @ [(next_request s1, input)],
                     next_request := next_request s1 + 1\<rparr>))"

text \<open>
  The handlers of the \<^verbatim>\<open>/detect_category\<close> request. The response is
  \<^verbatim>\<open>{category?: string}\<close>; the handler is given its \<^verbatim>\<open>category\<close>, \<open>None\<close> when absent.
\<close>

definition detect_then :: "jsstring option \<Rightarrow> flow \<Rightarrow> flow" where
  "detect_then data_category s =
     (let s1 = hideAICreationScreen s
      in case data_category of
           None \<Rightarrow> showErrorScreen s1
         | Some c \<Rightarrow>
             (if c \<noteq> []
              then askAgent (s1\<lparr>category := Some c,
                                currentCategory := c,
                                step := 1,
                                answers := [],
                                landing_display := False,
                                interaction_display := True\<rparr>)
              else showErrorScreen s1))"

definition detect_catch :: "flow \<Rightarrow> flow" where
  "detect_catch s = showErrorScreen (hideAICreationScreen s)"

subsection \<open>Answering (lines 890-936)\<close>

text \<open>
  The \<^verbatim>\<open>try\<close> block of \<^verbatim>\<open>handleOption\<close> as the list of its statements that change the
  state, in source order, so that the states between two statements can be named.
\<close>

datatype stmt =
    SetRequestInProgress
  | DisableOptionButtons
  | PushAnswer jsstring
  | IncrementStep
  | SetCurrentQuestionIndex
  | ClearError
  | ScheduleAskAgent

fun exec :: "stmt \<Rightarrow> flow \<Rightarrow> flow" where
  "exec SetRequestInProgress s = s\<lparr>isRequestInProgress := True\<rparr>"
| "exec DisableOptionButtons s =
     s\<lparr>option_btns := map (\<lambda>(opt, disabled). (opt, True)) (option_btns s)\<rparr>"
| "exec (PushAnswer opt) s = s\<lparr>answers := answers s @ [opt]\<rparr>"
| "exec IncrementStep s = s\<lparr>step := step s + 1\<rparr>"
| "exec SetCurrentQuestionIndex s = s\<lparr>currentQuestionIndex := step s\<rparr>"
| "exec ClearError s = s\<lparr>error_text := []\<rparr>"
| "exec ScheduleAskAgent s = snd (setTimeout AskAgentCallback 300 s)"

definition handleOption_body :: "jsstring \<Rightarrow> stmt list" where
  "handleOption_body opt =
     [SetRequestInProgress, DisableOptionButtons, PushAnswer opt, IncrementStep,
      SetCurrentQuestionIndex, ClearError, ScheduleAskAgent]"

text \<open>The states a statement list passes through, one after each statement.\<close>

fun states_after :: "stmt list \<Rightarrow> flow \<Rightarrow> flow list" where
  "states_after [] s = []"
| "states_after (c # cs) s = exec c s # states_after cs (exec c s)"

definition handleOption :: "jsstring \<Rightarrow> flow \<Rightarrow> flow" where
  "handleOption opt s =
     (if isRequestInProgress s then s
      else fold exec (handleOption_body opt) s)"

subsection \<open>The event loop\<close>

text \<open>
  A timer that is due runs its callback once and is gone; a request that is answered runs
  its \<^verbatim>\<open>.then\<close> handler, one that fails (network error, a status that is not ok, a body
  that is not JSON) its \<^verbatim>\<open>.catch\<close> handler. Which of the pending timers and requests
  comes next is the environment's choice: time is not modelled, so "no response within
  45 seconds" is the watchdog of a request running while the request is still pending.
  An exception that a timer callback throws is reported on the console and goes no further.
\<close>

definition run_callback :: "callback \<Rightarrow> flow \<Rightarrow> flow" where
  "run_callback cb s =
     (case cb of
        AskAgentCallback \<Rightarrow> askAgent s
      | TimeoutCallback \<Rightarrow> ask_timeout s
      | InfoMessageCallback message \<Rightarrow> snd (showInfoMessage message s))"

definition fire_timer :: "nat \<Rightarrow> flow \<Rightarrow> flow" where
  "fire_timer tid s =
     (case find (\<lambda>t. timer_id t = tid) (timers s) of
        None \<Rightarrow> s
      | Some t \<Rightarrow> run_callback (timer_callback t) (clearTimeout tid s))"

definition ask_resolved :: "markup \<Rightarrow> nat \<Rightarrow> jsval \<Rightarrow> flow \<Rightarrow> flow" where
  "ask_resolved mk rid data s =
     (case map_of (pending_ask s) rid of
        None \<Rightarrow> s
      | Some r \<Rightarrow>
          ask_then mk (req_timeout r) data
            (s\<lparr>pending_ask := filter (\<lambda>(i, _). i \<noteq> rid) (pending_ask s)\<rparr>))"

definition ask_rejected :: "nat \<Rightarrow> flow \<Rightarrow> flow" where
  "ask_rejected rid s =
     (case map_of (pending_ask s) rid of
        None \<Rightarrow> s
      | Some r \<Rightarrow>
          ask_catch (req_timeout r)
            (s\<lparr>pending_ask := filter (\<lambda>(i, _). i \<noteq> rid) (pending_ask s)\<rparr>))"

definition detect_resolved :: "nat \<Rightarrow> jsstring option \<Rightarrow> flow \<Rightarrow> flow" where
  "detect_resolved rid data_category s =
     (case map_of (pending_detect s) rid of
        None \<Rightarrow> s
      | Some q \<Rightarrow>
          detect_then data_category
            (s\<lparr>pending_detect := filter (\<lambda>(i, _). i \<noteq> rid) (pending_detect s)\<rparr>))"

definition detect_rejected :: "nat \<Rightarrow> flow \<Rightarrow> flow" where
  "detect_rejected rid s =
     (case map_of (pending_detect s) rid of
        None \<Rightarrow> s
      | Some q \<Rightarrow>
          detect_catch (s\<lparr>pending_detect := filter (\<lambda>(i, _). i \<noteq> rid) (pending_detect s)\<rparr>))"

text \<open>What the user and the environment can do, and a run of such events.\<close>

datatype event =
    Submit
  | Select jsstring
  | Answer jsstring
  | NewSearch
  | Home
  | Fire nat
  | AskResolved nat jsval
  | AskRejected nat
  | DetectResolved nat "jsstring option"
  | DetectRejected nat

fun handle :: "markup \<Rightarrow> event \<Rightarrow> flow \<Rightarrow> flow" where
  "handle mk Submit s = handleChatboxEntry s"
| "handle mk (Select c) s = startInteraction c s"
| "handle mk (Answer opt) s = handleOption opt s"
| "handle mk NewSearch s = resetToLanding s"
| "handle mk Home s = goToHomePage s"
| "handle mk (Fire tid) s = fire_timer tid s"
| "handle mk (AskResolved rid data) s = ask_resolved mk rid data s"
| "handle mk (AskRejected rid) s = ask_rejected rid s"
| "handle mk (DetectResolved rid c) s = detect_resolved rid c s"
| "handle mk (DetectRejected rid) s = detect_rejected rid s"

definition run :: "markup \<Rightarrow> event list \<Rightarrow> flow \<Rightarrow> flow" where
  "run mk evs s = fold (handle mk) evs s"

text \<open>
  The page once \<^verbatim>\<open>window.onload\<close> has loaded the categories \<open>specs\<close> (each with the number
  of its questions): the initial values of the globals, the landing screen with one card
  per category, the interaction panel hidden and empty. No category is named
  \<^verbatim>\<open>__proto__\<close>: line 1212 would set the prototype of \<^verbatim>\<open>window.currentSpecs\<close> instead of
  a property.
\<close>

definition loaded :: "(jsstring \<times> nat) list \<Rightarrow> flow" where
  "loaded specs =
     \<lparr>currentLanguage = str ''tr'',
      currentCategory = [],
      currentQuestionIndex = 0,
      totalQuestions = Some 7,
      step = 0,
      category = None,
      answers = [],
      isRequestInProgress = False,
      currentSpecs = Some specs,
      currentQuestionTooltip = JUndefined,
      chatbox_input = [],
      landing_display = True,
      interaction_display = False,
      category_cards = map (\<lambda>(c, n). JString c) specs,
      question_html = JString [],
      option_btns = [],
      recommendations_html = Cleared,
      error_text = [],
      loading_display = False,
      ai_creation_screen = False,
      error_screen = False,
      tooltip_text = None,
      info_messages = [],
      alerts = [],
      timers = [],
      next_timer = 0,
      pending_ask = [],
      pending_detect = [],
      next_request = 0\<rparr>"

text \<open>
  An option the user can click: the interaction panel is shown, no overlay covers it, and
  an enabled button carries the option.
\<close>

definition offered :: "flow \<Rightarrow> jsstring \<Rightarrow> bool" where
  "offered s opt =
     (interaction_display s \<and> \<not> ai_creation_screen s \<and> \<not> error_screen s \<and>
      (JString opt, False) \<in> set (option_btns s))"


subsection \<open>Suggestion lookup (lines 280-428, 468-495)\<close>

record suggestion =
  text_s :: jsstring
  icon_s :: jsstring
  category_s :: jsstring

definition sg_Kulaklik :: suggestion where
  "sg_Kulaklik = \<lparr>text_s = str ''Kulakl'' @ [305] @ str ''k'',
     icon_s = str ''fas fa-headphones'', category_s = str ''Headphones''\<rparr>"

definition sg_Klavye :: suggestion where
  "sg_Klavye = \<lparr>text_s = str ''Klavye'',
     icon_s = str ''fas fa-keyboard'', category_s = str ''Keyboard''\<rparr>"

definition sg_Klima :: suggestion where
  "sg_Klima = \<lparr>text_s = str ''Klima'',
     icon_s = str ''fas fa-snowflake'', category_s = str ''Air Conditioner''\<rparr>"

definition sg_Laptop :: suggestion where
  "sg_Laptop = \<lparr>text_s = str ''Laptop'',
     icon_s = str ''fas fa-laptop'', category_s = str ''Laptop''\<rparr>"

definition sg_Mouse :: suggestion where
  "sg_Mouse = \<lparr>text_s = str ''Mouse'',
     icon_s = str ''fas fa-mouse'', category_s = str ''Mouse''\<rparr>"

definition sg_Mikrofon :: suggestion where
  "sg_Mikrofon = \<lparr>text_s = str ''Mikrofon'',
     icon_s = str ''fas fa-microphone'', category_s = str ''Microphone''\<rparr>"

definition sg_Monitor :: suggestion where
  "sg_Monitor = \<lparr>text_s = str ''Monit'' @ [246] @ str ''r'',
     icon_s = str ''fas fa-desktop'', category_s = str ''Monitor''\<rparr>"

definition sg_Telefon :: suggestion where
  "sg_Telefon = \<lparr>text_s = str ''Telefon'',
     icon_s = str ''fas fa-mobile-alt'', category_s = str ''Phone''\<rparr>"

definition sg_Tablet :: suggestion where
  "sg_Tablet = \<lparr>text_s = str ''Tablet'',
     icon_s = str ''fas fa-tablet-alt'', category_s = str ''Tablet''\<rparr>"

definition sg_TV :: suggestion where
  "sg_TV = \<lparr>text_s = str ''TV'',
     icon_s = str ''fas fa-tv'', category_s = str ''TV''\<rparr>"

definition sg_Televizyon :: suggestion where
  "sg_Televizyon = \<lparr>text_s = str ''Televizyon'',
     icon_s = str ''fas fa-tv'', category_s = str ''TV''\<rparr>"

definition autocompleteSuggestions :: "(jsstring \<times> suggestion list) list" where
  "autocompleteSuggestions =
    [(str ''k'', [sg_Kulaklik, sg_Klavye, sg_Klima]),
     (str ''ku'', [sg_Kulaklik]),
     (str ''kul'', [sg_Kulaklik]),
     (str ''kula'', [sg_Kulaklik]),
     (str ''kulak'', [sg_Kulaklik]),
     (str ''kulakl'', [sg_Kulaklik]),
     (str ''kulakli'', [sg_Kulaklik]),
     (str ''kulaklik'', [sg_Kulaklik]),
     (str ''kulakl'' @ [305] @ str ''k'', [sg_Kulaklik]),
     (str ''kl'', [sg_Klima, sg_Klavye]),
     (str ''kli'', [sg_Klima]),
     (str ''klim'', [sg_Klima]),
     (str ''l'', [sg_Laptop]),
     (str ''la'', [sg_Laptop]),
     (str ''lap'', [sg_Laptop]),
     (str ''lapt'', [sg_Laptop]),
     (str ''lapto'', [sg_Laptop]),
     (str ''laptop'', [sg_Laptop]),
     (str ''m'', [sg_Mouse, sg_Mikrofon, sg_Monitor]),
     (str ''mo'', [sg_Mouse, sg_Monitor]),
     (str ''mi'', [sg_Mikrofon]),
     (str ''mik'', [sg_Mikrofon]),
     (str ''mikr'', [sg_Mikrofon]),
     (str ''mikro'', [sg_Mikrofon]),
     (str ''mikrof'', [sg_Mikrofon]),
     (str ''mikrofo'', [sg_Mikrofon]),
     (str ''mikrofon'', [sg_Mikrofon]),
     (str ''mon'', [sg_Monitor]),
     (str ''moni'', [sg_Monitor]),
     (str ''monit'', [sg_Monitor]),
     (str ''monito'', [sg_Monitor]),
     (str ''monitor'', [sg_Monitor]),
     (str ''monit'' @ [246] @ str ''r'', [sg_Monitor]),
     (str ''mou'', [sg_Mouse]),
     (str ''mous'', [sg_Mouse]),
     (str ''mouse'', [sg_Mouse]),
     (str ''t'', [sg_Telefon, sg_Tablet, sg_TV, sg_Televizyon]),
     (str ''te'', [sg_Telefon, sg_TV, sg_Televizyon]),
     (str ''tel'', [sg_Telefon, sg_TV, sg_Televizyon]),
     (str ''tele'', [sg_Telefon, sg_TV, sg_Televizyon]),
     (str ''telef'', [sg_Telefon]),
     (str ''telefo'', [sg_Telefon]),
     (str ''telefon'', [sg_Telefon])]"

text \<open>
  The script builds \<^verbatim>\<open>new RegExp('^' + query, 'i')\<close> and \<^verbatim>\<open>new RegExp(query, 'i')\<close> from
  the text the user typed, so the query is read as a regular expression. The model covers
  the queries made of literal characters, the wildcard \<^verbatim>\<open>.\<close> and the opening parenthesis:
  without a parenthesis such a query is a sequence of atoms, with one it is a group that
  is never closed, for which the constructor throws a SyntaxError. A query that holds any
  other syntax character of the pattern grammar (\<^verbatim>\<open>^ $ \ * + ? ) [ ] { } |\<close>) is outside
  the model.
\<close>

datatype atom = Literal nat | AnyChar

datatype regexp = Pattern "atom list" | SyntaxError | Unmodelled

definition syntax_character :: "nat \<Rightarrow> bool" where
  "syntax_character c = (c \<in> set [94, 36, 92, 46, 42, 43, 63, 40, 41, 91, 93, 123, 125, 124])"

definition compile :: "jsstring \<Rightarrow> regexp" where
  "compile source =
     (if list_ex (\<lambda>c. syntax_character c \<and> c \<noteq> 46 \<and> c \<noteq> 40) source then Unmodelled
      else if list_ex (\<lambda>c. c = 40) source then SyntaxError
      else Pattern (map (\<lambda>c. if c = 46 then AnyChar else Literal c) source))"

text \<open>
  \<open>Canonicalize\<close> of the \<^verbatim>\<open>i\<close> flag (without the \<^verbatim>\<open>u\<close> flag): a code unit is compared
  through its upper case, unless that is more than one code unit or turns a non-ASCII
  code unit into an ASCII one. Given on Basic Latin and the Latin-1 Supplement; a code
  unit above U+00FF is compared as it is, which is what \<open>Canonicalize\<close> does for U+0131,
  the only such code unit in the table. The keys and display texts of the table are
  written in ASCII letters, U+0131 and U+00F6, and for these the comparison with an
  arbitrary code unit is modelled exactly.
\<close>

definition canonicalize :: "nat \<Rightarrow> nat" where
  "canonicalize c =
     (if 97 \<le> c \<and> c \<le> 122 then c - 32
      else if 224 \<le> c \<and> c \<le> 254 \<and> c \<noteq> 247 then c - 32
      else if c = 255 then 376
      else if c = 181 then 924
      else c)"

definition line_terminator :: "nat \<Rightarrow> bool" where
  "line_terminator c = (c \<in> set [10, 13, 8232, 8233])"

fun atom_matches :: "atom \<Rightarrow> nat \<Rightarrow> bool" where
  "atom_matches (Literal c) u = (canonicalize c = canonicalize u)"
| "atom_matches AnyChar u = (\<not> line_terminator u)"

text \<open>The pattern matches at the start of the string, and somewhere in the string.\<close>

fun matches_here :: "atom list \<Rightarrow> jsstring \<Rightarrow> bool" where
  "matches_here [] s = True"
| "matches_here (a # as) [] = False"
| "matches_here (a # as) (u # s) = (atom_matches a u \<and> matches_here as s)"

fun matches_somewhere :: "atom list \<Rightarrow> jsstring \<Rightarrow> bool" where
  "matches_somewhere as [] = matches_here as []"
| "matches_somewhere as (u # s) = (matches_here as (u # s) \<or> matches_somewhere as s)"

text \<open>\<^verbatim>\<open>if (!suggestions.some(s => s.text === suggestion.text)) suggestions.push(suggestion)\<close>\<close>

definition push_new :: "suggestion \<Rightarrow> suggestion list \<Rightarrow> suggestion list" where
  "push_new suggestion suggestions =
     (if list_ex (\<lambda>s. text_s s = text_s suggestion) suggestions then suggestions
      else suggestions @ [suggestion])"

text \<open>
  What a call of the lookup does: it returns a list, it throws, or the model does not say.
\<close>

datatype lookup = Suggestions "suggestion list" | Throws | NotModelled

definition getAutocompleteSuggestions :: "jsstring \<Rightarrow> lookup" where
  "getAutocompleteSuggestions query =
     (if query = [] then Suggestions []
      else (case compile query of
              Unmodelled \<Rightarrow> NotModelled
            | SyntaxError \<Rightarrow> Throws
            | Pattern pattern \<Rightarrow>
                (let by_key = fold (\<lambda>(key, key_suggestions) suggestions.
                                     if matches_here pattern key
                                     then fold push_new key_suggestions suggestions
                                     else suggestions)
                                autocompleteSuggestions [];
                     by_text = fold (\<lambda>(key, categorySuggestions) suggestions.
                                      fold (\<lambda>suggestion acc.
                                              if matches_somewhere pattern (text_s suggestion)
                                              then push_new suggestion acc else acc)
                                        categorySuggestions suggestions)
                                 autocompleteSuggestions by_key
                 in Suggestions (take 8 by_text))))"

text \<open>
  The contract in the words of the specification: the suggestions of the keys the query is
  a prefix of, in table order, then the suggestions whose display text holds the query,
  each display text once, eight at most. Letters are compared without regard to case.
\<close>

definition same_letters :: "jsstring \<Rightarrow> jsstring \<Rightarrow> bool" where
  "same_letters a b = (map canonicalize a = map canonicalize b)"

definition prefix_of_key :: "jsstring \<Rightarrow> jsstring \<Rightarrow> bool" where
  "prefix_of_key query key =
     (length query \<le> length key \<and> same_letters query (take (length query) key))"

fun occurs_in :: "jsstring \<Rightarrow> jsstring \<Rightarrow> bool" where
  "occurs_in query [] = (query = [])"
| "occurs_in query (u # s) = (prefix_of_key query (u # s) \<or> occurs_in query s)"

fun first_by_text :: "suggestion list \<Rightarrow> suggestion list \<Rightarrow> suggestion list" where
  "first_by_text seen [] = seen"
| "first_by_text seen (x # xs) = first_by_text (push_new x seen) xs"

definition prefix_matches :: "jsstring \<Rightarrow> suggestion list" where
  "prefix_matches query =
     concat (map snd (filter (\<lambda>(key, ss). prefix_of_key query key) autocompleteSuggestions))"

definition substring_matches :: "jsstring \<Rightarrow> suggestion list" where
  "substring_matches query =
     filter (\<lambda>s. occurs_in query (text_s s)) (concat (map snd autocompleteSuggestions))"

definition expected_suggestions :: "jsstring \<Rightarrow> suggestion list" where
  "expected_suggestions query =
     take 8 (first_by_text [] (prefix_matches query @ substring_matches query))"

subsection \<open>Response classification in the words of the specification\<close>

text \<open>
  The eight response shapes of the specification in their priority order, each with its
  test; the last one has none, it is what remains. A payload carries a field when the
  field is truthy, which is how the script tests it.
\<close>

datatype shape =
    NextQuestion
  | ModernRecommendations
  | FallbackRecommendations
  | BareRecommendations
  | CategoryList
  | ErrorFlag
  | ErrorWithFallback
  | Unexpected

definition carries :: "jsval \<Rightarrow> string \<Rightarrow> bool" where
  "carries data k = truthy (get_prop data (str k))"

definition tagged :: "jsval \<Rightarrow> string \<Rightarrow> bool" where
  "tagged data t = (get_prop data (str ''type'') = JString (str t))"

definition priority_order :: "(shape \<times> (jsval \<Rightarrow> bool)) list" where
  "priority_order =
     [(NextQuestion, \<lambda>d. carries d ''question'' \<and> carries d ''options''),
      (ModernRecommendations,
         \<lambda>d. tagged d ''modern_recommendation'' \<and> carries d ''recommendations''),
      (FallbackRecommendations,
         \<lambda>d. tagged d ''fallback_recommendation'' \<and> carries d ''recommendations''),
      (BareRecommendations, \<lambda>d. carries d ''recommendations''),
      (CategoryList, \<lambda>d. carries d ''categories''),
      (ErrorFlag, \<lambda>d. carries d ''error''),
      (ErrorWithFallback, \<lambda>d. tagged d ''error'' \<and> carries d ''fallback_recommendations'')]"

definition first_match :: "jsval \<Rightarrow> shape" where
  "first_match data =
     (case find (\<lambda>(sh, test). test data) priority_order of
        Some (sh, test) \<Rightarrow> sh
      | None \<Rightarrow> Unexpected)"


text \<open>
  What a response handler leaves alone: the session variables and the guard are as they
  were, and an error screen that was shown is still shown.
\<close>

definition same_session :: "flow \<Rightarrow> flow \<Rightarrow> bool" where
  "same_session s t =
     (step t = step s \<and> category t = category s \<and> answers t = answers s \<and>
      isRequestInProgress t = isRequestInProgress s \<and>
      (error_screen s \<longrightarrow> error_screen t))"


text \<open>
  A payload whose question can be rendered: the question, each option and the emoji
  convert to strings, the options are an array, and the tooltip, when there is one, is a
  string. A payload whose category list can be rendered: an array of values that convert
  to strings. Payloads whose fields have the types of the response contract (strings and
  arrays of strings) are of this kind.
\<close>

fun isString :: "jsval \<Rightarrow> bool" where
  "isString (JString s) = True"
| "isString _ = False"

definition question_renders :: "jsval \<Rightarrow> bool" where
  "question_renders data =
     (\<not> ToString_throws (get_prop data (str ''question'')) \<and>
      isArray (get_prop data (str ''options'')) \<and>
      list_all (\<lambda>opt. \<not> ToString_throws opt) (elements (get_prop data (str ''options''))) \<and>
      \<not> ToString_throws (get_prop data (str ''emoji'')) \<and>
      (truthy (get_prop data (str ''tooltip'')) \<longrightarrow> isString (get_prop data (str ''tooltip''))))"


subsection \<open>Example inputs\<close>

text \<open>The smart search over the product table, with all controls present.\<close>

definition ex_search :: "jsstring \<Rightarrow> jsstring \<Rightarrow> jsstring \<Rightarrow> jsnum \<Rightarrow> smart_search" where
  "ex_search q c z r =
     \<lparr>catalog = products, product_search_input = Some q, color_filter = Some c,
      size_filter = Some z, rating_filter = Some r, product_list = Some []\<rparr>"

text \<open>
  A page with the one category \<^verbatim>\<open>Headphones\<close> of three questions, a card template that
  yields empty markup and never throws, and two question payloads.
\<close>

definition ex_page :: flow where
  "ex_page = loaded [(str ''Headphones'', 3)]"

definition ex_markup :: markup where
  "ex_markup lang item = Some []"

definition ex_question :: "string \<Rightarrow> string \<Rightarrow> jsval" where
  "ex_question q opt =
     JObject [(str ''question'', JString (str q)), (str ''options'', JArray [JString (str opt)])]"

text \<open>
  The user picks the category, the first question arrives and is shown:
  the state \<open>QuestionDisplayed\<close>.
\<close>

definition ex_question_displayed :: flow where
  "ex_question_displayed =
     run ex_markup [Select (str ''Headphones''), AskResolved 0 (ex_question ''Q1'' ''a'')] ex_page"

text \<open>
  The user picks the category, goes home while the first question is being fetched, and
  picks the category again: nothing has aborted the first request.
\<close>

definition ex_selected_twice :: flow where
  "ex_selected_twice =
     run ex_markup [Select (str ''Headphones''), Home, Select (str ''Headphones'')] ex_page"

text \<open>
  From the displayed question the user goes home and picks the category again: the
  first-question request of the new flow is pending and the panel still shows the old
  question and its button.
\<close>

definition ex_stale_buttons :: flow where
  "ex_stale_buttons = run ex_markup [Home, Select (str ''Headphones'')] ex_question_displayed"

text \<open>
  The user picks the category and goes home before the answer arrives; then it arrives.
\<close>

definition ex_late_after_home :: flow where
  "ex_late_after_home =
     run ex_markup [Select (str ''Headphones''), Home, AskResolved 0 (ex_question ''Q1'' ''a'')]
       ex_page"

text \<open>
  The user answers the first question (timer 1 runs \<^verbatim>\<open>askAgent\<close>, which sends request 1
  with watchdog 2), no response comes and the watchdog runs.
\<close>

definition ex_timed_out :: flow where
  "ex_timed_out = run ex_markup [Answer (str ''a''), Fire 1, Fire 2] ex_question_displayed"











text \<open>
  The user types a query and submits it; category detection answers \<^verbatim>\<open>Headphones\<close> and the
  first question is requested.
\<close>

definition ex_detected :: flow where
  "ex_detected =
     run ex_markup [Submit, DetectResolved 0 (Some (str ''Headphones''))]
       (ex_page\<lparr>chatbox_input := str ''kulakl'' @ [305] @ str ''k''\<rparr>)"

section \<open>Properties\<close>

subsection \<open>Catalog filter\<close>

lemma js_includes_Nil [simp]: "js_includes s []"
  by (cases s) simp_all

lemma js_includes_iff_sublist: "js_includes s t \<longleftrightarrow> sublist t s"
  by (induction s) (auto simp: sublist_Cons_right)

lemma toLowerCase_Nil [simp]: "toLowerCase [] = []"
  by (simp add: toLowerCase_def)

lemma products_rating_nonneg: "\<forall>p \<in> set products. 0 \<le> rating p"
  by (simp add: products_def dbl_def)

lemma products_rating_nearest:
  "list_all2 (\<lambda>p q. \<bar>rating p - q\<bar> \<le> 1 / 2 ^ 51) products rating_literals"
  by (simp add: products_def rating_literals_def dbl_def)

text \<open>
  C9. With the four controls and the result list on the page, the catalog filter shows
  exactly the items of the fixed product list that match all the predicates that are set
  (a name containing the text without regard to case, the exact colour, the exact size, a
  rating of at least the minimum), in table order; an unset predicate imposes no
  constraint. With nothing set it shows the whole list, and when no item matches all
  predicates it shows the empty list. The product list itself is never changed.
\<close>

theorem filterProducts_contract:
  "catalog (filterProducts d) = catalog d \<and>
   (catalog d = products \<and> product_search_input d = Some q \<and> color_filter d = Some c \<and>
    size_filter d = Some z \<and> rating_filter d = Some r \<and> product_list d = Some shown \<longrightarrow>
      product_list (filterProducts d) =
        Some (filter (matches_all (predicates_of q c z r)) products) \<and>
      (q = [] \<and> c = [] \<and> z = [] \<and> r = NaN \<longrightarrow>
         product_list (filterProducts d) = Some products) \<and>
      ((\<forall>p \<in> set products. \<not> matches_all (predicates_of q c z r) p) \<longrightarrow>
         product_list (filterProducts d) = Some []))"
proof -
  have frame: "catalog (filterProducts d) = catalog d"
    by (simp add: filterProducts_def displayProducts_def Let_def split: option.splits)
  have same: "(js_includes (toLowerCase (name p)) (toLowerCase q) \<and> (c = [] \<or> color p = c) \<and>
               (z = [] \<or> size_p p = z) \<and>
               ge_num (rating p) (if truthy_num r then r else Finite 0))
              = matches_all (predicates_of q c z r) p" if "p \<in> set products" for p
  proof -
    from that products_rating_nonneg have "0 \<le> rating p" by blast
    then show ?thesis
      by (cases r) (auto simp: matches_all_def predicates_of_def)
  qed
  have main: "product_list (filterProducts d) =
                Some (filter (matches_all (predicates_of q c z r)) products)"
    if "catalog d = products" "product_search_input d = Some q" "color_filter d = Some c"
       "size_filter d = Some z" "rating_filter d = Some r" "product_list d = Some shown"
    using that same
    by (simp add: filterProducts_def displayProducts_def Let_def cong: filter_cong)
  have none: "filter (matches_all (predicates_of [] [] [] NaN)) products = products"
    by (simp add: matches_all_def predicates_of_def)
  have empty: "filter (matches_all (predicates_of q c z r)) products = []"
    if "\<forall>p \<in> set products. \<not> matches_all (predicates_of q c z r) p"
    using that by (simp add: filter_empty_conv)
  show ?thesis using frame main none empty by auto
qed

theorem filterProducts_contract_witness:
  "product_list (filterProducts (ex_search (str ''KA'') (str ''siyah'') [] (Finite 4)))
     = Some [products ! 7] \<and>
   product_list (filterProducts (ex_search [] [] [] NaN)) = Some products \<and>
   product_list (filterProducts (ex_search [] (str ''mavi'') (str ''L'') NaN)) = Some []"
proof -
  have narrow:
    "\<forall>p \<in> set products. \<not> matches_all (predicates_of [] (str ''mavi'') (str ''L'') NaN) p"
    by (simp add: matches_all_def predicates_of_def products_def str_def)
  have one:
    "filter (matches_all (predicates_of (str ''KA'') (str ''siyah'') [] (Finite 4))) products
       = [products ! 7]"
    by (simp add: matches_all_def predicates_of_def products_def str_def toLowerCase_def
                  toLowerCase_unit_def dbl_def)
  have none: "filter (matches_all (predicates_of [] [] [] NaN)) products = products"
    by (simp add: matches_all_def predicates_of_def)
  show ?thesis
    using filterProducts_contract [of "ex_search (str ''KA'') (str ''siyah'') [] (Finite 4)"
            "str ''KA''" "str ''siyah''" "[]" "Finite 4" "[]"]
          filterProducts_contract [of "ex_search [] [] [] NaN" "[]" "[]" "[]" NaN "[]"]
          filterProducts_contract [of "ex_search [] (str ''mavi'') (str ''L'') NaN"
            "[]" "str ''mavi''" "str ''L''" NaN "[]"]
          narrow one none
    by (simp add: ex_search_def)
qed

subsection \<open>Unfolding the model\<close>

lemmas overlay_defs = showAICreationScreen_def hideAICreationScreen_def showInfoMessage_def
  showErrorScreen_def hideErrorScreen_def hideLoadingScreen_def

lemmas flow_defs = run_def startInteraction_def askAgent_def specs_length_def specs_of_def
  property_key_def exceeds_def fetch_ask_def
  setTimeout_def clearTimeout_def ask_resolved_def ask_rejected_def ask_then_def ask_catch_def
  ask_timeout_def dispatch_def question_branch_def renderQuestion_def updateQuestionIcon_def
  updateQuestionTooltip_def append_button_def
  js_or_def fire_timer_def run_callback_def handleOption_def handleOption_body_def
  goToHomePage_def resetToLanding_def overlay_defs

lemmas example_defs = ex_question_displayed_def ex_stale_buttons_def ex_late_after_home_def
  ex_timed_out_def ex_page_def loaded_def ex_question_def ex_markup_def str_def

lemmas example_defs2 = example_defs ex_detected_def handleChatboxEntry_def detect_resolved_def
  detect_then_def trim_def white_space_def

subsection \<open>Loops over the elements of an array\<close>

lemma forEach_append_button:
  "forEach append_button xs s =
     (if list_ex ToString_throws xs
      then (Throw, s\<lparr>option_btns := option_btns s @
              map (\<lambda>opt. (opt, False)) (takeWhile (\<lambda>opt. \<not> ToString_throws opt) xs)\<rparr>)
      else (Normal, s\<lparr>option_btns := option_btns s @ map (\<lambda>opt. (opt, False)) xs\<rparr>))"
  by (induction xs arbitrary: s) (simp_all add: append_button_def)

lemma forEach_append_card:
  "forEach append_card xs s =
     (if list_ex ToString_throws xs
      then (Throw, s\<lparr>category_cards := category_cards s @
              takeWhile (\<lambda>cat. \<not> ToString_throws cat) xs\<rparr>)
      else (Normal, s\<lparr>category_cards := category_cards s @ xs\<rparr>))"
  by (induction xs arbitrary: s) (simp_all add: append_card_def)

lemma showInfoMessage_string [simp]:
  "showInfoMessage (JString m) s = (Normal, s\<lparr>info_messages := info_messages s @ [JString m]\<rparr>)"
  by (simp add: showInfoMessage_def)

subsection \<open>What the handlers leave alone\<close>

lemma same_session_refl [simp]: "same_session s s"
  by (simp add: same_session_def)

lemma same_session_trans: "same_session s t \<Longrightarrow> same_session t u \<Longrightarrow> same_session s u"
  by (simp add: same_session_def)

lemma hideAICreationScreen_session [simp]: "same_session s (hideAICreationScreen s)"
  by (simp add: same_session_def overlay_defs)

lemma askAgent_session [simp]:
  "step (askAgent s) = step s" "category (askAgent s) = category s"
  "answers (askAgent s) = answers s" "isRequestInProgress (askAgent s) = isRequestInProgress s"
  by (simp_all add: askAgent_def fetch_ask_def setTimeout_def overlay_defs Let_def)

lemma renderRecommendations_session:
  "same_session s (snd (renderRecommendations mk recs s))"
  by (simp add: same_session_def renderRecommendations_def overlay_defs Let_def split: option.splits)

lemma renderQuestion_session: "same_session s (snd (renderQuestion q opts e s))"
  by (simp add: same_session_def renderQuestion_def updateQuestionIcon_def
      updateQuestionTooltip_def forEach_append_button Let_def split: jsval.splits)

lemma renderLanding_session: "same_session s (snd (renderLanding cs s))"
  by (simp add: same_session_def renderLanding_def forEach_append_card Let_def)

lemma question_branch_session: "same_session s (snd (question_branch data s))"
proof -
  let ?s1 = "(hideAICreationScreen s)\<lparr>currentQuestionTooltip := js_or (get_prop data (str ''tooltip'')) JNull\<rparr>"
  have "same_session s ?s1" by (simp add: same_session_def overlay_defs)
  then show ?thesis
    unfolding question_branch_def Let_def
    by (rule same_session_trans) (rule renderQuestion_session)
qed

lemma modern_branch_session: "same_session s (snd (modern_branch mk data s))"
proof -
  let ?r = "renderRecommendations mk (get_prop data (str ''recommendations'')) (hideAICreationScreen s)"
  have "same_session s (snd ?r)"
    by (rule same_session_trans [OF hideAICreationScreen_session renderRecommendations_session])
  then show ?thesis
    by (cases ?r) (auto simp: modern_branch_def same_session_def split: completion.splits)
qed

lemma fallback_branch_session: "same_session s (snd (fallback_branch mk data s))"
proof -
  let ?r = "renderRecommendations mk (get_prop data (str ''recommendations'')) (hideAICreationScreen s)"
  have "same_session s (snd ?r)"
    by (rule same_session_trans [OF hideAICreationScreen_session renderRecommendations_session])
  then show ?thesis
    by (cases ?r) (auto simp: fallback_branch_def same_session_def setTimeout_def Let_def
        split: completion.splits)
qed

lemma error_fallback_branch_session: "same_session s (snd (error_fallback_branch mk data s))"
proof -
  let ?r = "renderRecommendations mk (get_prop data (str ''fallback_recommendations'')) (hideAICreationScreen s)"
  have "same_session s (snd ?r)"
    by (rule same_session_trans [OF hideAICreationScreen_session renderRecommendations_session])
  then show ?thesis
    by (cases ?r) (auto simp: error_fallback_branch_def same_session_def
        split: completion.splits)
qed

lemma error_branch_session: "same_session s (snd (error_branch s))"
  "same_session s (snd (unexpected_branch s))"
  by (simp_all add: same_session_def error_branch_def unexpected_branch_def overlay_defs)

lemma dispatch_session: "same_session s (snd (dispatch mk data s))"
  by (simp add: dispatch_def question_branch_session modern_branch_session
      fallback_branch_session error_fallback_branch_session error_branch_session
      legacy_branch_def categories_branch_def renderRecommendations_session renderLanding_session)

subsection \<open>Response classification\<close>


lemma falsy_converts: "\<not> truthy v \<Longrightarrow> \<not> ToString_throws v"
  by (cases v) simp_all


lemma question_branch_result:
  "fst (question_branch data s) = (if question_renders data then Normal else Throw)"
  "question_renders data \<Longrightarrow>
     question_html (snd (question_branch data s)) = get_prop data (str ''question'') \<and>
     option_btns (snd (question_branch data s)) =
       map (\<lambda>opt. (opt, False)) (elements (get_prop data (str ''options''))) \<and>
     interaction_display (snd (question_branch data s))"
  "info_messages (snd (question_branch data s)) = info_messages s"
proof -
  note emoji = falsy_converts [of "get_prop data (str ''emoji'')"]
  have ex_all: "list_ex ToString_throws xs = (\<not> list_all (\<lambda>opt. \<not> ToString_throws opt) xs)" for xs
    by (simp add: list_ex_iff list_all_iff)
  show "fst (question_branch data s) = (if question_renders data then Normal else Throw)"
    using emoji
    by (cases "get_prop data (str ''tooltip'')")
       (auto simp: question_branch_def renderQuestion_def updateQuestionIcon_def
          updateQuestionTooltip_def forEach_append_button js_or_def question_renders_def
          hideAICreationScreen_def ex_all Let_def)
  show "question_renders data \<Longrightarrow>
     question_html (snd (question_branch data s)) = get_prop data (str ''question'') \<and>
     option_btns (snd (question_branch data s)) =
       map (\<lambda>opt. (opt, False)) (elements (get_prop data (str ''options''))) \<and>
     interaction_display (snd (question_branch data s))"
    using emoji
    by (cases "get_prop data (str ''tooltip'')")
       (auto simp: question_branch_def renderQuestion_def updateQuestionIcon_def
          updateQuestionTooltip_def forEach_append_button js_or_def question_renders_def
          hideAICreationScreen_def ex_all Let_def)
  show "info_messages (snd (question_branch data s)) = info_messages s"
    by (cases "get_prop data (str ''tooltip'')")
       (simp_all add: question_branch_def renderQuestion_def updateQuestionIcon_def
          updateQuestionTooltip_def forEach_append_button js_or_def
          hideAICreationScreen_def Let_def)
qed







lemma typed_question_renders:
  "isString (get_prop data (str ''question'')) \<Longrightarrow>
   isArray (get_prop data (str ''options'')) \<Longrightarrow>
   list_all isString (elements (get_prop data (str ''options''))) \<Longrightarrow>
   isString (get_prop data (str ''emoji'')) \<or> get_prop data (str ''emoji'') = JUndefined \<Longrightarrow>
   isString (get_prop data (str ''tooltip'')) \<or> get_prop data (str ''tooltip'') = JUndefined \<Longrightarrow>
   question_renders data"
proof -
  have string: "isString v \<Longrightarrow> \<not> ToString_throws v" for v by (cases v) simp_all
  assume "isString (get_prop data (str ''question''))"
    "isArray (get_prop data (str ''options''))"
    "list_all isString (elements (get_prop data (str ''options'')))"
    "isString (get_prop data (str ''emoji'')) \<or> get_prop data (str ''emoji'') = JUndefined"
    "isString (get_prop data (str ''tooltip'')) \<or> get_prop data (str ''tooltip'') = JUndefined"
  then show ?thesis
    using string by (auto simp: question_renders_def list_all_iff)
qed



subsection \<open>The single-flight guard\<close>

text \<open>
  C2 (amended). In every state in which the in-flight guard \<^verbatim>\<open>isRequestInProgress\<close> is
  true, \<^verbatim>\<open>handleOption\<close> is a no-op: it changes neither \<open>answers\<close> nor \<open>step\<close> nor anything
  else, sends no request and schedules none.
\<close>

theorem handleOption_guarded_noop:
  "isRequestInProgress s \<Longrightarrow>
     handleOption opt s = s \<and>
     answers (handleOption opt s) = answers s \<and>
     step (handleOption opt s) = step s \<and>
     pending_ask (handleOption opt s) = pending_ask s \<and>
     pending_detect (handleOption opt s) = pending_detect s \<and>
     timers (handleOption opt s) = timers s"
  by (simp add: handleOption_def)

theorem handleOption_guarded_noop_witness:
  "isRequestInProgress (handleOption (str ''a'') ex_question_displayed) \<and>
   handleOption (str ''b'') (handleOption (str ''a'') ex_question_displayed) =
     handleOption (str ''a'') ex_question_displayed"
proof -
  have guard: "isRequestInProgress (handleOption (str ''a'') ex_question_displayed)"
    by (simp add: example_defs flow_defs Let_def)
  show ?thesis
    using guard handleOption_guarded_noop [OF guard, of "str ''b''"] by simp
qed

text \<open>
  The guard is set by \<^verbatim>\<open>handleOption\<close> only, and nothing aborts a request. Picking a
  category, going home and picking it again leaves two requests in flight. And the
  request that \<^verbatim>\<open>startInteraction\<close> sends leaves the guard false, so while it is pending
  an answer is accepted: when the user has gone home from a displayed question and picked
  the category again, the old option button is still on the panel, and clicking it appends
  the answer, increments the step and sends a second request while the first is still in
  flight.
\<close>

theorem two_requests_in_flight:
  "length (pending_ask ex_selected_twice) = 2 \<and>
   \<not> isRequestInProgress ex_selected_twice \<and>
   length (pending_ask ex_stale_buttons) = 1 \<and>
   \<not> isRequestInProgress ex_stale_buttons \<and>
   offered ex_stale_buttons (str ''a'') \<and>
   answers ex_stale_buttons = [] \<and>
   answers (handleOption (str ''a'') ex_stale_buttons) = [str ''a''] \<and>
   step (handleOption (str ''a'') ex_stale_buttons) = step ex_stale_buttons + 1 \<and>
   length (pending_ask (run ex_markup [Answer (str ''a''), Fire 2] ex_stale_buttons)) = 2"
  by (simp add: example_defs ex_selected_twice_def flow_defs offered_def Let_def)

text \<open>
  C3. In every state in which the guard is false, \<^verbatim>\<open>handleOption\<close> appends exactly the
  chosen option to \<open>answers\<close> and increments \<open>step\<close> by exactly one. The states it passes
  through are first states with the old \<open>answers\<close> and \<open>step\<close>, then one with the option
  appended and the old \<open>step\<close>, then states with both changed: the append comes before the
  increment. No request is sent in any of these states; the request is sent by the
  callback that the last statement schedules (after 300 ms), and its body carries the new
  \<open>step\<close> and \<open>answers\<close>.
\<close>

theorem handleOption_appends_then_increments:
  assumes "\<not> isRequestInProgress s"
  shows "handleOption opt s = last (states_after (handleOption_body opt) s) \<and>
    answers (handleOption opt s) = answers s @ [opt] \<and>
    step (handleOption opt s) = step s + 1 \<and>
    (\<exists>before after.
       states_after (handleOption_body opt) s = before @ after \<and> after \<noteq> [] \<and>
       list_all (\<lambda>t. answers t = answers s \<and> step t = step s) before \<and>
       answers (hd after) = answers s @ [opt] \<and> step (hd after) = step s \<and>
       list_all (\<lambda>t. answers t = answers s @ [opt] \<and> step t = step s + 1) (tl after)) \<and>
    list_all (\<lambda>t. pending_ask t = pending_ask s \<and> pending_detect t = pending_detect s)
      (states_after (handleOption_body opt) s) \<and>
    timers (handleOption opt s) =
      timers s @ [\<lparr>timer_id = next_timer s, delay_ms = 300, timer_callback = AskAgentCallback\<rparr>] \<and>
    pending_ask (run_callback AskAgentCallback (handleOption opt s)) =
      pending_ask s @
        [(next_request s,
          \<lparr>req_step = step s + 1, req_category = category s, req_answers = answers s @ [opt],
           req_language = currentLanguage s, req_timeout = next_timer s + 1\<rparr>)]"
proof (intro conjI)
  let ?tr = "states_after (handleOption_body opt) s"
  show "handleOption opt s = last ?tr"
    using assms by (simp add: handleOption_def handleOption_body_def)
  show "answers (handleOption opt s) = answers s @ [opt]"
    using assms by (simp add: handleOption_def handleOption_body_def setTimeout_def)
  show "step (handleOption opt s) = step s + 1"
    using assms by (simp add: handleOption_def handleOption_body_def setTimeout_def)
  show "timers (handleOption opt s) =
      timers s @ [\<lparr>timer_id = next_timer s, delay_ms = 300, timer_callback = AskAgentCallback\<rparr>]"
    using assms by (simp add: handleOption_def handleOption_body_def setTimeout_def)
  show "\<exists>before after.
       ?tr = before @ after \<and> after \<noteq> [] \<and>
       list_all (\<lambda>t. answers t = answers s \<and> step t = step s) before \<and>
       answers (hd after) = answers s @ [opt] \<and> step (hd after) = step s \<and>
       list_all (\<lambda>t. answers t = answers s @ [opt] \<and> step t = step s + 1) (tl after)"
    apply (rule exI [of _ "take 2 ?tr"])
    apply (rule exI [of _ "drop 2 ?tr"])
    apply (simp add: handleOption_body_def setTimeout_def)
    done
  show "list_all (\<lambda>t. pending_ask t = pending_ask s \<and> pending_detect t = pending_detect s) ?tr"
    by (simp add: handleOption_body_def setTimeout_def)
  show "pending_ask (run_callback AskAgentCallback (handleOption opt s)) =
      pending_ask s @
        [(next_request s,
          \<lparr>req_step = step s + 1, req_category = category s, req_answers = answers s @ [opt],
           req_language = currentLanguage s, req_timeout = next_timer s + 1\<rparr>)]"
    using assms
    by (simp add: run_callback_def askAgent_def handleOption_def handleOption_body_def
        setTimeout_def fetch_ask_def overlay_defs Let_def specs_length_def split: option.splits)
qed

theorem handleOption_appends_then_increments_witness:
  "\<not> isRequestInProgress ex_question_displayed \<and>
   answers (handleOption (str ''a'') ex_question_displayed) = [str ''a''] \<and>
   step (handleOption (str ''a'') ex_question_displayed) = 2 \<and>
   map (req_step \<circ> snd) (pending_ask
     (run_callback AskAgentCallback (handleOption (str ''a'') ex_question_displayed))) = [2]"
proof -
  have state: "\<not> isRequestInProgress ex_question_displayed"
    "answers ex_question_displayed = []" "step ex_question_displayed = 1"
    "pending_ask ex_question_displayed = []"
    by (simp_all add: example_defs flow_defs Let_def)
  note c3 = handleOption_appends_then_increments [OF state(1), of "str ''a''", THEN conjunct2]
  have a: "answers (handleOption (str ''a'') ex_question_displayed) = [str ''a'']"
    using c3 [THEN conjunct1] state by simp
  have b: "step (handleOption (str ''a'') ex_question_displayed) = 2"
    using c3 [THEN conjunct2, THEN conjunct1] state by simp
  have c: "map (req_step \<circ> snd) (pending_ask
     (run_callback AskAgentCallback (handleOption (str ''a'') ex_question_displayed))) = [2]"
    using c3 [THEN conjunct2, THEN conjunct2, THEN conjunct2, THEN conjunct2, THEN conjunct2]
      state by simp
  show ?thesis using state(1) a b c by simp
qed

subsection \<open>The watchdog\<close>

text \<open>
  The watchdog acts when the guard is true and only then; the guard is left as it is by
  the two operations that send the first-question request; and both handlers of a request
  cancel its watchdog.
\<close>

lemma ask_timeout_guarded:
  "isRequestInProgress s \<Longrightarrow>
     \<not> isRequestInProgress (ask_timeout s) \<and> error_screen (ask_timeout s) \<and>
     \<not> ai_creation_screen (ask_timeout s) \<and> \<not> loading_display (ask_timeout s)"
  by (simp add: ask_timeout_def overlay_defs)

lemma ask_timeout_unguarded: "\<not> isRequestInProgress s \<Longrightarrow> ask_timeout s = s"
  by (simp add: ask_timeout_def)

lemma first_request_unguarded:
  "isRequestInProgress (startInteraction c s) = isRequestInProgress s \<and>
   isRequestInProgress (detect_then data_category s) = isRequestInProgress s"
  by (simp add: startInteraction_def detect_then_def overlay_defs Let_def split: option.splits)

lemma renderRecommendations_timers:
  "timers (snd (renderRecommendations mk recs s)) = timers s"
  by (simp add: renderRecommendations_def overlay_defs Let_def split: option.splits)

lemma dispatch_timers:
  "\<exists>extra. timers (snd (dispatch mk data s)) = timers s @ extra \<and>
     list_all (\<lambda>t. timer_callback t \<noteq> TimeoutCallback) extra"
proof -
  note recs = renderRecommendations_timers
      [of mk "get_prop data (str ''recommendations'')" "hideAICreationScreen s"]
  note fallback_recs = renderRecommendations_timers
      [of mk "get_prop data (str ''fallback_recommendations'')" "hideAICreationScreen s"]
  have fb: "\<exists>extra. timers (snd (fallback_branch mk data s)) = timers s @ extra \<and>
     list_all (\<lambda>t. timer_callback t \<noteq> TimeoutCallback) extra"
    using recs
    by (cases "renderRecommendations mk (get_prop data (str ''recommendations''))
                 (hideAICreationScreen s)")
       (auto simp: fallback_branch_def hideAICreationScreen_def setTimeout_def Let_def
          split: completion.splits)
  have q: "timers (snd (question_branch data s)) = timers s"
    by (cases "get_prop data (str ''tooltip'')")
       (simp_all add: question_branch_def renderQuestion_def updateQuestionIcon_def
          updateQuestionTooltip_def forEach_append_button js_or_def hideAICreationScreen_def
          Let_def)
  have m: "timers (snd (modern_branch mk data s)) = timers s"
    using recs
    by (cases "renderRecommendations mk (get_prop data (str ''recommendations''))
                 (hideAICreationScreen s)")
       (auto simp: modern_branch_def hideAICreationScreen_def split: completion.splits)
  have l: "timers (snd (legacy_branch mk data s)) = timers s"
    by (simp add: legacy_branch_def renderRecommendations_timers)
  have c: "timers (snd (categories_branch data s)) = timers s"
    by (simp add: categories_branch_def renderLanding_def forEach_append_card Let_def)
  have e: "timers (snd (error_branch s)) = timers s"
    "timers (snd (unexpected_branch s)) = timers s"
    by (simp_all add: error_branch_def unexpected_branch_def overlay_defs)
  have ef: "timers (snd (error_fallback_branch mk data s)) = timers s"
    using fallback_recs
    by (cases "renderRecommendations mk (get_prop data (str ''fallback_recommendations''))
                 (hideAICreationScreen s)")
       (auto simp: error_fallback_branch_def hideAICreationScreen_def split: completion.splits)
  show ?thesis using fb q m l c e ef by (simp add: dispatch_def)
qed

lemma watchdog_cancelled:
  "list_all (\<lambda>t. timer_id t \<noteq> tid \<or> timer_callback t \<noteq> TimeoutCallback)
     (timers (ask_then mk tid data s)) \<and>
   list_all (\<lambda>t. timer_id t \<noteq> tid) (timers (ask_catch tid s))"
proof -
  have c: "list_all (\<lambda>t. timer_id t \<noteq> tid) (timers (ask_catch tid t))" for t
    by (simp add: ask_catch_def clearTimeout_def overlay_defs list_all_iff)
  let ?s1 = "(clearTimeout tid s)\<lparr>isRequestInProgress := False\<rparr>"
  obtain extra where e: "timers (snd (dispatch mk data ?s1)) = timers ?s1 @ extra"
    "list_all (\<lambda>t. timer_callback t \<noteq> TimeoutCallback) extra"
    using dispatch_timers [of mk data ?s1] by blast
  have d: "list_all (\<lambda>t. timer_id t \<noteq> tid \<or> timer_callback t \<noteq> TimeoutCallback)
     (timers (snd (dispatch mk data ?s1)))"
    using e by (auto simp: clearTimeout_def list_all_iff)
  have "list_all (\<lambda>t. timer_id t \<noteq> tid \<or> timer_callback t \<noteq> TimeoutCallback)
     (timers (ask_then mk tid data s))"
    using c [of ?s1] c [of "snd (dispatch mk data ?s1)"] d
    by (cases "dispatch mk data ?s1")
       (auto simp: ask_then_def Let_def list_all_iff split: completion.splits)
  with c show ?thesis by blast
qed

text \<open>
  C4 fails for the first-question request. \<^verbatim>\<open>startInteraction\<close> sends it with a 45 s
  watchdog and leaves the guard false; when no response comes and the watchdog runs, it
  finds the guard false and does nothing: the error screen is not shown and the loading
  indicator stays. The same happens to the request sent after category detection.
\<close>

theorem first_request_timeout_ignored:
  "timers (startInteraction (str ''Headphones'') ex_page) =
     [\<lparr>timer_id = 0, delay_ms = 45000, timer_callback = TimeoutCallback\<rparr>] \<and>
   length (pending_ask (startInteraction (str ''Headphones'') ex_page)) = 1 \<and>
   \<not> isRequestInProgress (startInteraction (str ''Headphones'') ex_page) \<and>
   fire_timer 0 (startInteraction (str ''Headphones'') ex_page) =
     (startInteraction (str ''Headphones'') ex_page)\<lparr>timers := []\<rparr> \<and>
   \<not> error_screen (fire_timer 0 (startInteraction (str ''Headphones'') ex_page)) \<and>
   loading_display (fire_timer 0 (startInteraction (str ''Headphones'') ex_page)) \<and>
   timers ex_detected = [\<lparr>timer_id = 0, delay_ms = 45000, timer_callback = TimeoutCallback\<rparr>] \<and>
   length (pending_ask ex_detected) = 1 \<and>
   \<not> isRequestInProgress ex_detected \<and>
   fire_timer 0 ex_detected = ex_detected\<lparr>timers := []\<rparr> \<and>
   \<not> error_screen (fire_timer 0 ex_detected) \<and>
   loading_display (fire_timer 0 ex_detected)"
  by (simp add: example_defs2 flow_defs Let_def)

subsection \<open>The session-state invariant\<close>




subsection \<open>Reset\<close>

text \<open>
  \<^verbatim>\<open>resetToLanding\<close> (the "new search" button) does what the specification says of the
  reset, from every state, and is idempotent. \<^verbatim>\<open>goToHomePage\<close> resets the session
  variables and the input and is idempotent, but leaves the panels as they are.
\<close>

lemma resetToLanding_clears:
  "step (resetToLanding s) = 0 \<and> category (resetToLanding s) = None \<and>
   answers (resetToLanding s) = [] \<and> question_html (resetToLanding s) = JString [] \<and>
   option_btns (resetToLanding s) = [] \<and> recommendations_html (resetToLanding s) = Cleared \<and>
   error_text (resetToLanding s) = [] \<and> chatbox_input (resetToLanding s) = [] \<and>
   \<not> ai_creation_screen (resetToLanding s) \<and> \<not> error_screen (resetToLanding s) \<and>
   resetToLanding (resetToLanding s) = resetToLanding s"
  by (simp add: resetToLanding_def overlay_defs)

lemma goToHomePage_clears:
  "step (goToHomePage s) = 0 \<and> category (goToHomePage s) = None \<and>
   answers (goToHomePage s) = [] \<and> chatbox_input (goToHomePage s) = [] \<and>
   \<not> ai_creation_screen (goToHomePage s) \<and> \<not> error_screen (goToHomePage s) \<and>
   question_html (goToHomePage s) = question_html s \<and>
   option_btns (goToHomePage s) = option_btns s \<and>
   recommendations_html (goToHomePage s) = recommendations_html s \<and>
   error_text (goToHomePage s) = error_text s \<and>
   goToHomePage (goToHomePage s) = goToHomePage s"
  by (simp add: goToHomePage_def overlay_defs)

text \<open>
  C6 fails for \<^verbatim>\<open>goToHomePage\<close>: from the state in which a question is displayed it leaves
  the question and its option button on the panel, where \<^verbatim>\<open>resetToLanding\<close> clears them.
  When the user then picks a category, the panel is shown with the old question and its
  enabled button.
\<close>

theorem goToHomePage_keeps_question:
  "step (goToHomePage ex_question_displayed) = 0 \<and>
   category (goToHomePage ex_question_displayed) = None \<and>
   answers (goToHomePage ex_question_displayed) = [] \<and>
   question_html (goToHomePage ex_question_displayed) = JString (str ''Q1'') \<and>
   option_btns (goToHomePage ex_question_displayed) = [(JString (str ''a''), False)] \<and>
   question_html (resetToLanding ex_question_displayed) = JString [] \<and>
   option_btns (resetToLanding ex_question_displayed) = [] \<and>
   interaction_display ex_stale_buttons \<and>
   question_html ex_stale_buttons = JString (str ''Q1'') \<and>
   option_btns ex_stale_buttons = [(JString (str ''a''), False)]"
  by (simp add: example_defs flow_defs Let_def)

subsection \<open>Late responses\<close>

text \<open>
  C7 (amended). A response that arrives after the watchdog of its request has run is not
  ignored: it is handled like any other response. It changes none of \<open>step\<close>, \<open>category\<close>
  and \<open>answers\<close>, it leaves the guard false and the error screen shown; and it renders what it
  carries: a payload whose first matching shape is the question shape and whose question
  can be rendered (\<open>question_renders\<close>) replaces the displayed question and options with
  its own, the buttons enabled, and shows the panel.
\<close>

theorem late_response_is_handled:
  "step (ask_resolved mk rid data s) = step s \<and>
   category (ask_resolved mk rid data s) = category s \<and>
   answers (ask_resolved mk rid data s) = answers s \<and>
   (\<not> isRequestInProgress s \<longrightarrow> \<not> isRequestInProgress (ask_resolved mk rid data s)) \<and>
   (error_screen s \<longrightarrow> error_screen (ask_resolved mk rid data s)) \<and>
   (map_of (pending_ask s) rid \<noteq> None \<and> first_match data = NextQuestion \<and>
    question_renders data \<longrightarrow>
      question_html (ask_resolved mk rid data s) = get_prop data (str ''question'') \<and>
      option_btns (ask_resolved mk rid data s) =
        map (\<lambda>opt. (opt, False)) (elements (get_prop data (str ''options''))) \<and>
      interaction_display (ask_resolved mk rid data s))"
proof -
  have catch: "same_session (t\<lparr>isRequestInProgress := False\<rparr>) (ask_catch tid t)" for tid t
    by (simp add: same_session_def ask_catch_def clearTimeout_def overlay_defs)
  have then_frame: "same_session (t\<lparr>isRequestInProgress := False\<rparr>) (ask_then mk tid data t)"
    for tid t
  proof -
    let ?t1 = "(clearTimeout tid t)\<lparr>isRequestInProgress := False\<rparr>"
    have a: "same_session (t\<lparr>isRequestInProgress := False\<rparr>) ?t1"
      by (simp add: same_session_def clearTimeout_def)
    have b: "same_session ?t1 (ask_catch tid ?t1)"
      using catch [of ?t1 tid] by (simp add: same_session_def)
    have c: "same_session ?t1 (snd (dispatch mk data ?t1))" by (rule dispatch_session)
    have d: "same_session ?t1 (ask_catch tid (snd (dispatch mk data ?t1)))"
      using c catch [of "snd (dispatch mk data ?t1)" tid] by (simp add: same_session_def)
    have "same_session ?t1 (ask_then mk tid data t)"
      using b c d
      by (cases "dispatch mk data ?t1")
         (auto simp: ask_then_def Let_def split: completion.splits)
    with a show ?thesis by (rule same_session_trans)
  qed
  have frame: "step (ask_resolved mk rid data s) = step s \<and>
     category (ask_resolved mk rid data s) = category s \<and>
     answers (ask_resolved mk rid data s) = answers s \<and>
     (\<not> isRequestInProgress s \<longrightarrow> \<not> isRequestInProgress (ask_resolved mk rid data s)) \<and>
     (error_screen s \<longrightarrow> error_screen (ask_resolved mk rid data s))"
  proof (cases "map_of (pending_ask s) rid")
    case None
    then show ?thesis by (simp add: ask_resolved_def)
  next
    case (Some r)
    let ?t = "s\<lparr>pending_ask := filter (\<lambda>(i, _). i \<noteq> rid) (pending_ask s)\<rparr>"
    from then_frame [of ?t "req_timeout r"] Some show ?thesis
      by (simp add: ask_resolved_def same_session_def)
  qed
  have render: "question_html (ask_resolved mk rid data s) = get_prop data (str ''question'') \<and>
      option_btns (ask_resolved mk rid data s) =
        map (\<lambda>opt. (opt, False)) (elements (get_prop data (str ''options''))) \<and>
      interaction_display (ask_resolved mk rid data s)"
    if "map_of (pending_ask s) rid \<noteq> None" "first_match data = NextQuestion"
       "question_renders data"
  proof -
    from that(1) obtain r where r: "map_of (pending_ask s) rid = Some r" by blast
    from that(2) have q: "truthy (get_prop data (str ''question''))"
      "truthy (get_prop data (str ''options''))"
      by (auto simp: first_match_def priority_order_def carries_def tagged_def split: if_splits)
    then have nonnull: "data \<noteq> JNull" "data \<noteq> JUndefined" by auto
    let ?s1 = "(clearTimeout (req_timeout r)
                 (s\<lparr>pending_ask := filter (\<lambda>(i, _). i \<noteq> rid) (pending_ask s)\<rparr>))
               \<lparr>isRequestInProgress := False\<rparr>"
    have d: "dispatch mk data ?s1 = question_branch data ?s1"
      using q by (simp add: dispatch_def)
    have n: "fst (question_branch data ?s1) = Normal"
      using that(3) by (simp add: question_branch_result(1))
    have "ask_resolved mk rid data s = snd (question_branch data ?s1)"
      using r nonnull d n
      by (cases "question_branch data ?s1") (simp add: ask_resolved_def ask_then_def Let_def)
    then show ?thesis
      using question_branch_result(2) [OF that(3), of ?s1] by simp
  qed
  show ?thesis using frame render by blast
qed

theorem late_response_is_handled_witness:
  "error_screen ex_timed_out \<and> \<not> isRequestInProgress ex_timed_out \<and>
   step (ask_resolved ex_markup 1 (ex_question ''Q2'' ''b'') ex_timed_out) = step ex_timed_out \<and>
   error_screen (ask_resolved ex_markup 1 (ex_question ''Q2'' ''b'') ex_timed_out) \<and>
   \<not> isRequestInProgress (ask_resolved ex_markup 1 (ex_question ''Q2'' ''b'') ex_timed_out) \<and>
   question_html (ask_resolved ex_markup 1 (ex_question ''Q2'' ''b'') ex_timed_out) =
     JString (str ''Q2'')"
proof -
  have pre: "error_screen ex_timed_out" "\<not> isRequestInProgress ex_timed_out"
    "map_of (pending_ask ex_timed_out) 1 \<noteq> None"
    by (simp_all add: example_defs flow_defs Let_def)
  have data: "first_match (ex_question ''Q2'' ''b'') = NextQuestion"
    "question_renders (ex_question ''Q2'' ''b'')"
    "get_prop (ex_question ''Q2'' ''b'') (str ''question'') = JString (str ''Q2'')"
    by (simp_all add: first_match_def priority_order_def carries_def tagged_def
        question_renders_def ex_question_def str_def)
  show ?thesis
    using late_response_is_handled [of ex_markup 1 "ex_question ''Q2'' ''b''" ex_timed_out] pre data
    by simp
qed

text \<open>
  The user answers the first question, no response comes, the watchdog shows the error
  screen; the response that comes afterwards replaces the displayed question and puts an
  enabled option button on the panel, without any action of the user.
\<close>

theorem late_response_renders_question:
  "error_screen ex_timed_out \<and>
   \<not> isRequestInProgress ex_timed_out \<and>
   timers ex_timed_out = [] \<and>
   question_html ex_timed_out = JString (str ''Q1'') \<and>
   option_btns ex_timed_out = [(JString (str ''a''), True)] \<and>
   question_html (ask_resolved ex_markup 1 (ex_question ''Q2'' ''b'') ex_timed_out) =
     JString (str ''Q2'') \<and>
   option_btns (ask_resolved ex_markup 1 (ex_question ''Q2'' ''b'') ex_timed_out) =
     [(JString (str ''b''), False)] \<and>
   ask_resolved ex_markup 1 (ex_question ''Q2'' ''b'') ex_timed_out \<noteq> ex_timed_out"
proof -
  have facts: "error_screen ex_timed_out \<and>
   \<not> isRequestInProgress ex_timed_out \<and>
   timers ex_timed_out = [] \<and>
   question_html ex_timed_out = JString (str ''Q1'') \<and>
   option_btns ex_timed_out = [(JString (str ''a''), True)] \<and>
   question_html (ask_resolved ex_markup 1 (ex_question ''Q2'' ''b'') ex_timed_out) =
     JString (str ''Q2'') \<and>
   option_btns (ask_resolved ex_markup 1 (ex_question ''Q2'' ''b'') ex_timed_out) =
     [(JString (str ''b''), False)]"
    by (simp add: example_defs flow_defs Let_def)
  then have "question_html (ask_resolved ex_markup 1 (ex_question ''Q2'' ''b'') ex_timed_out)
      \<noteq> question_html ex_timed_out"
    by (simp add: str_def)
  then have "ask_resolved ex_markup 1 (ex_question ''Q2'' ''b'') ex_timed_out \<noteq> ex_timed_out"
    by auto
  with facts show ?thesis by blast
qed

subsection \<open>Suggestion lookup\<close>

lemma sg_texts:
  "text_s sg_Kulaklik = [75, 117, 108, 97, 107, 108, 305, 107]"
  "text_s sg_Klavye = [75, 108, 97, 118, 121, 101]"
  "text_s sg_Klima = [75, 108, 105, 109, 97]"
  "text_s sg_Laptop = [76, 97, 112, 116, 111, 112]"
  "text_s sg_Mouse = [77, 111, 117, 115, 101]"
  "text_s sg_Mikrofon = [77, 105, 107, 114, 111, 102, 111, 110]"
  "text_s sg_Monitor = [77, 111, 110, 105, 116, 246, 114]"
  "text_s sg_Telefon = [84, 101, 108, 101, 102, 111, 110]"
  "text_s sg_Tablet = [84, 97, 98, 108, 101, 116]"
  "text_s sg_TV = [84, 86]"
  "text_s sg_Televizyon = [84, 101, 108, 101, 118, 105, 122, 121, 111, 110]"
  by (simp_all add: sg_Kulaklik_def sg_Klavye_def sg_Klima_def
  sg_Laptop_def sg_Mouse_def sg_Mikrofon_def sg_Monitor_def sg_Telefon_def sg_Tablet_def
  sg_TV_def sg_Televizyon_def str_def)

lemma compile_literal:
  assumes "list_all (\<lambda>c. \<not> syntax_character c) query"
  shows "compile query = Pattern (map Literal query)"
proof -
  have "\<forall>c \<in> set query. c \<noteq> 46 \<and> c \<noteq> 40"
    using assms by (auto simp: list_all_iff syntax_character_def)
  then show ?thesis
    using assms by (auto simp: compile_def list_all_iff list_ex_iff)
qed

lemma matches_here_literal:
  "matches_here (map Literal query) key = prefix_of_key query key"
proof (induction query arbitrary: key)
  case Nil
  then show ?case by (simp add: prefix_of_key_def same_letters_def)
next
  case (Cons c query)
  then show ?case
    by (cases key) (auto simp: prefix_of_key_def same_letters_def)
qed

lemma matches_somewhere_literal:
  "matches_somewhere (map Literal query) s = occurs_in query s"
proof (induction s)
  case Nil
  then show ?case by (cases query) simp_all
next
  case (Cons u s)
  then show ?case by (simp add: matches_here_literal)
qed

lemma first_by_text_fold: "first_by_text seen xs = fold push_new xs seen"
  by (induction xs arbitrary: seen) simp_all

lemma fold_by_key:
  "fold (\<lambda>(key, key_suggestions) suggestions.
           if P key then fold push_new key_suggestions suggestions else suggestions) table seen
   = fold push_new (concat (map snd (filter (\<lambda>(key, ss). P key) table))) seen"
  by (induction table arbitrary: seen) (auto simp: case_prod_beta)

lemma fold_filter_push:
  "fold (\<lambda>suggestion acc. if Q suggestion then push_new suggestion acc else acc) ss seen
   = fold push_new (filter Q ss) seen"
  by (induction ss arbitrary: seen) simp_all

lemma fold_by_text:
  "fold (\<lambda>(key, categorySuggestions) suggestions.
           fold (\<lambda>suggestion acc. if Q suggestion then push_new suggestion acc else acc)
             categorySuggestions suggestions) table seen
   = fold push_new (filter Q (concat (map snd table))) seen"
  by (induction table arbitrary: seen) (auto simp: case_prod_beta fold_filter_push)

lemma push_new_distinct:
  "distinct (map text_s seen) \<Longrightarrow> distinct (map text_s (push_new x seen))"
  by (auto simp: push_new_def list_ex_iff)

lemma fold_push_new_distinct:
  "distinct (map text_s seen) \<Longrightarrow> distinct (map text_s (fold push_new xs seen))"
  by (induction xs arbitrary: seen) (simp_all add: push_new_distinct)

text \<open>
  For a non-empty query without a syntax character of the pattern grammar the lookup is
  what the specification says: the suggestions of the keys the query is a prefix of, then
  those whose display text holds the query, letters compared without regard to case,
  each display text once, eight at most. For \<^verbatim>\<open>ku\<close> it is the headphone suggestion alone.
\<close>

lemma literal_query_lookup:
  assumes "query \<noteq> []" and "list_all (\<lambda>c. \<not> syntax_character c) query"
  shows "getAutocompleteSuggestions query = Suggestions (expected_suggestions query) \<and>
         length (expected_suggestions query) \<le> 8 \<and>
         distinct (map text_s (expected_suggestions query))"
proof -
  have "getAutocompleteSuggestions query = Suggestions (expected_suggestions query)"
    using assms
    by (simp add: getAutocompleteSuggestions_def compile_literal matches_here_literal
        matches_somewhere_literal fold_by_key fold_by_text expected_suggestions_def
        prefix_matches_def substring_matches_def first_by_text_fold Let_def)
  moreover have "distinct (map text_s (expected_suggestions query))"
    unfolding expected_suggestions_def first_by_text_fold
    by (simp add: take_map [symmetric] distinct_take fold_push_new_distinct)
  ultimately show ?thesis by (simp add: expected_suggestions_def)
qed

lemma ku_lookup: "getAutocompleteSuggestions (str ''ku'') = Suggestions [sg_Kulaklik]"
proof -
  have q: "str ''ku'' \<noteq> []" "list_all (\<lambda>c. \<not> syntax_character c) (str ''ku'')"
    by (simp_all add: str_def syntax_character_def)
  have "expected_suggestions (str ''ku'') = [sg_Kulaklik]"
    by (simp add: expected_suggestions_def prefix_matches_def substring_matches_def
        prefix_of_key_def same_letters_def canonicalize_def autocompleteSuggestions_def
        push_new_def sg_texts str_def)
  with literal_query_lookup [OF q] show ?thesis by simp
qed

lemma by_key_wild:
  "concat (map snd (filter (\<lambda>(key, ss). matches_here [AnyChar] key) autocompleteSuggestions))
     = concat (map snd autocompleteSuggestions)"
  by (simp add: autocompleteSuggestions_def str_def line_terminator_def)

lemma by_text_wild:
  "filter (\<lambda>s. matches_somewhere [AnyChar] (text_s s)) (concat (map snd autocompleteSuggestions))
     = concat (map snd autocompleteSuggestions)"
  by (simp add: autocompleteSuggestions_def sg_texts line_terminator_def)

lemma all_suggestions:
  "fold push_new (concat (map snd autocompleteSuggestions)) [] =
     [sg_Kulaklik, sg_Klavye, sg_Klima, sg_Laptop, sg_Mouse, sg_Mikrofon, sg_Monitor,
      sg_Telefon, sg_Tablet, sg_TV, sg_Televizyon]"
  by (simp add: autocompleteSuggestions_def push_new_def sg_texts)

lemma all_suggestions_again:
  "fold push_new (concat (map snd autocompleteSuggestions))
     [sg_Kulaklik, sg_Klavye, sg_Klima, sg_Laptop, sg_Mouse, sg_Mikrofon, sg_Monitor,
      sg_Telefon, sg_Tablet, sg_TV, sg_Televizyon] =
     [sg_Kulaklik, sg_Klavye, sg_Klima, sg_Laptop, sg_Mouse, sg_Mikrofon, sg_Monitor,
      sg_Telefon, sg_Tablet, sg_TV, sg_Televizyon]"
  by (simp add: autocompleteSuggestions_def push_new_def sg_texts)

lemma no_key_starts_with_dot:
  "prefix_matches (str ''.'') = [] \<and> substring_matches (str ''.'') = []"
  by (simp add: prefix_matches_def substring_matches_def prefix_of_key_def same_letters_def
      canonicalize_def autocompleteSuggestions_def sg_texts str_def)

lemma no_key_starts_with_paren:
  "prefix_matches (str ''('') = [] \<and> substring_matches (str ''('') = []"
  by (simp add: prefix_matches_def substring_matches_def prefix_of_key_def same_letters_def
      canonicalize_def autocompleteSuggestions_def sg_texts str_def)

text \<open>
  C8 fails for a query that holds a syntax character, because the query is compiled as a
  regular expression. For the query \<^verbatim>\<open>.\<close> the lookup returns eight suggestions, although
  no key starts with a full stop and no display text holds one; for the query \<^verbatim>\<open>(\<close> it
  throws. By the specification the result is the empty list for both.
\<close>

theorem query_is_a_pattern:
  "getAutocompleteSuggestions (str ''.'') =
     Suggestions [sg_Kulaklik, sg_Klavye, sg_Klima, sg_Laptop, sg_Mouse, sg_Mikrofon,
                  sg_Monitor, sg_Telefon] \<and>
   expected_suggestions (str ''.'') = [] \<and>
   getAutocompleteSuggestions (str ''('') = Throws \<and>
   expected_suggestions (str ''('') = []"
proof -
  have pattern: "str ''.'' \<noteq> []" "compile (str ''.'') = Pattern [AnyChar]"
    by (simp_all add: str_def compile_def syntax_character_def)
  have "getAutocompleteSuggestions (str ''.'') =
     Suggestions (take 8 [sg_Kulaklik, sg_Klavye, sg_Klima, sg_Laptop, sg_Mouse, sg_Mikrofon, sg_Monitor,
      sg_Telefon, sg_Tablet, sg_TV, sg_Televizyon])"
    unfolding getAutocompleteSuggestions_def Let_def
    by (simp only: pattern if_False regexp.case fold_by_key fold_by_text by_key_wild by_text_wild
        all_suggestions all_suggestions_again)
  moreover have "expected_suggestions (str ''.'') = []"
    by (simp add: expected_suggestions_def no_key_starts_with_dot)
  moreover have "getAutocompleteSuggestions (str ''('') = Throws"
    by (simp add: getAutocompleteSuggestions_def compile_def syntax_character_def str_def)
  moreover have "expected_suggestions (str ''('') = []"
    by (simp add: expected_suggestions_def no_key_starts_with_paren)
  ultimately show ?thesis by simp
qed

subsection \<open>Rendering recommendations\<close>

text \<open>
  C10. For an argument that is \<^verbatim>\<open>null\<close>, \<^verbatim>\<open>undefined\<close>, not an array or an empty array,
  \<^verbatim>\<open>renderRecommendations\<close> hides the overlays, puts the message "no products found" in
  the panel and returns without throwing; for every argument, thrown or not, it leaves
  \<open>step\<close>, \<open>category\<close> and \<open>answers\<close> as they were.
\<close>

theorem renderRecommendations_no_products:
  "((recs = JNull \<or> recs = JUndefined \<or> \<not> isArray recs \<or> recs = JArray []) \<longrightarrow>
      renderRecommendations mk recs s =
        (Normal, s\<lparr>ai_creation_screen := False, loading_display := False,
                    recommendations_html := NoProductsFound\<rparr>)) \<and>
   step (snd (renderRecommendations mk recs s)) = step s \<and>
   category (snd (renderRecommendations mk recs s)) = category s \<and>
   answers (snd (renderRecommendations mk recs s)) = answers s"
proof -
  have guard: "renderRecommendations mk recs s =
        (Normal, s\<lparr>ai_creation_screen := False, loading_display := False,
                    recommendations_html := NoProductsFound\<rparr>)"
    if "recs = JNull \<or> recs = JUndefined \<or> \<not> isArray recs \<or> recs = JArray []"
    using that by (cases recs) (auto simp: renderRecommendations_def overlay_defs)
  have frame: "step (snd (renderRecommendations mk recs s)) = step s \<and>
     category (snd (renderRecommendations mk recs s)) = category s \<and>
     answers (snd (renderRecommendations mk recs s)) = answers s"
    by (simp add: renderRecommendations_def overlay_defs Let_def split: option.splits)
  show ?thesis using guard frame by blast
qed

theorem renderRecommendations_no_products_witness:
  "renderRecommendations ex_markup JNull ex_page =
     (Normal, ex_page\<lparr>ai_creation_screen := False, loading_display := False,
                       recommendations_html := NoProductsFound\<rparr>) \<and>
   renderRecommendations ex_markup (JString (str ''none'')) ex_page =
     (Normal, ex_page\<lparr>ai_creation_screen := False, loading_display := False,
                       recommendations_html := NoProductsFound\<rparr>) \<and>
   renderRecommendations ex_markup (JArray []) ex_page =
     (Normal, ex_page\<lparr>ai_creation_screen := False, loading_display := False,
                       recommendations_html := NoProductsFound\<rparr>) \<and>
   step (snd (renderRecommendations ex_markup (JArray [JNull]) ex_page)) = 0"
  using renderRecommendations_no_products [of JNull ex_markup ex_page]
        renderRecommendations_no_products [of "JString (str ''none'')" ex_markup ex_page]
        renderRecommendations_no_products [of "JArray []" ex_markup ex_page]
        renderRecommendations_no_products [of "JArray [JNull]" ex_markup ex_page]
  by (simp add: ex_page_def loaded_def)

end
